theory Spec2Isabelle
  imports Complex_Main
begin

section \<open>The impact physics engine of the Impact Simulator\<close>

text \<open>
  A shallow embedding of \<^verbatim>\<open>backend/services/physics_engine.py\<close> (class
  \<^verbatim>\<open>EnhancedPhysicsEngine\<close>) with the parts of \<^verbatim>\<open>backend/models\<close> it reads and
  builds. Python floats are idealised as the real numbers: no rounding, no overflow, no
  NaN. Everything else follows the source: the truthiness tests of optional floats, the
  dictionary lookups, the exceptions (as values of a sum type), the complex number that
  Python's power operator returns for a negative base and a fractional exponent, and
  the assignment to the engine's \<^verbatim>\<open>calculation_metadata\<close> field (as explicit state).
  A leading underscore of a Python name is dropped, since an Isabelle name cannot start
  with one.
\<close>

subsection \<open>Python values and exceptions\<close>

datatype error = ValueError | KeyError | ZeroDivisionError | TypeError

text \<open>
  The result of an arithmetic expression of the engine is a float, or a complex number
  once a negative base has been raised to a fractional power. Which complex number it is
  never matters: the only thing the engine does with it, apart from more arithmetic and
  formatting, is an ordering comparison, which raises \<^verbatim>\<open>TypeError\<close>.
\<close>

datatype pynum = PyFloat real | PyComplex

text \<open>\<^verbatim>\<open>x ** a\<close> for a float \<open>x\<close> and a positive exponent \<open>a\<close> that is not an integer.\<close>

definition py_pow :: "real \<Rightarrow> real \<Rightarrow> pynum" where
  "py_pow x a = (if x < 0 then PyComplex else PyFloat (x powr a))"

fun pn_map :: "(real \<Rightarrow> real) \<Rightarrow> pynum \<Rightarrow> pynum" where
  "pn_map f (PyFloat x) = PyFloat (f x)"
| "pn_map f PyComplex = PyComplex"

fun pn_add :: "pynum \<Rightarrow> pynum \<Rightarrow> pynum" where
  "pn_add (PyFloat x) (PyFloat y) = PyFloat (x + y)"
| "pn_add PyComplex y = PyComplex"
| "pn_add x PyComplex = PyComplex"

text \<open>The operand of an ordering comparison \<^verbatim>\<open>x > c\<close> (and of \<^verbatim>\<open>min\<close>).\<close>

fun ordered :: "pynum \<Rightarrow> error + real" where
  "ordered (PyFloat x) = Inr x"
| "ordered PyComplex = Inl TypeError"

definition bind_err :: "error + 'a \<Rightarrow> ('a \<Rightarrow> error + 'b) \<Rightarrow> error + 'b" where
  "bind_err r f = (case r of Inl e \<Rightarrow> Inl e | Inr x \<Rightarrow> f x)"

text \<open>\<^verbatim>\<open>math.sqrt\<close> raises \<^verbatim>\<open>ValueError\<close> below zero.\<close>

definition py_sqrt :: "real \<Rightarrow> error + real" where
  "py_sqrt x = (if x < 0 then Inl ValueError else Inr (sqrt x))"

text \<open>Division of floats raises \<^verbatim>\<open>ZeroDivisionError\<close> on a zero divisor.\<close>

definition py_div :: "real \<Rightarrow> real \<Rightarrow> error + real" where
  "py_div x y = (if y = 0 then Inl ZeroDivisionError else Inr (x / y))"

text \<open>\<^verbatim>\<open>math.radians\<close>.\<close>

definition radians :: "real \<Rightarrow> real" where
  "radians d = d * pi / 180"

text \<open>
  Truthiness of an \<^verbatim>\<open>Optional[float]\<close>: \<^verbatim>\<open>None\<close> and \<^verbatim>\<open>0.0\<close> are false, every
  other float is true, the negative ones too. \<open>or_else v d\<close> is \<^verbatim>\<open>v or d\<close>.
\<close>

definition truthy :: "real option \<Rightarrow> bool" where
  "truthy v = (case v of None \<Rightarrow> False | Some x \<Rightarrow> x \<noteq> 0)"

definition or_else :: "real option \<Rightarrow> real \<Rightarrow> real" where
  "or_else v d = (case v of None \<Rightarrow> d | Some x \<Rightarrow> if x \<noteq> 0 then x else d)"

subsection \<open>The data model\<close>

text \<open>
  The fields of \<^verbatim>\<open>OrbitalElements\<close>, \<^verbatim>\<open>Asteroid\<close> and \<^verbatim>\<open>ImpactParameters\<close> that the
  engine reads. \<^verbatim>\<open>ImpactParameters.impact_angle_deg\<close> is declared
  \<^verbatim>\<open>Field(45, ge=15, le=90)\<close>; no other field read here carries a constraint.
\<close>

record orbital_elements =
  semi_major_axis_au :: "real option"
  eccentricity :: "real option"

record asteroid =
  nasa_id :: string
  name :: string
  estimated_diameter_km :: "real option"
  orbital_elements :: "orbital_elements option"
  composition_type :: string
  density_kg_m3 :: "real option"

record impact_parameters =
  asteroid_nasa_id :: string
  impact_velocity_kms :: "real option"
  impact_angle_deg :: real
  target_density_kg_m3 :: real


text \<open>
  An f-string is kept as its parts: the literal text and the formatted numbers, each
  with its format specification. How a float is rendered into digits is not modelled.
\<close>

datatype fspec = Plain | Fixed0 | Fixed1 | Comma0

datatype fpart = Lit string | Num fspec real

type_synonym fstring = "fpart list"

record impact_metric =
  metric_value :: fstring
  metric_unit :: string
  severity :: string
  description :: fstring
  progress :: real
  scientific_basis :: "string option"
  uncertainty_range :: "(string \<times> real) list option"

record impact_results =
  immediate :: "(string \<times> impact_metric) list"
  environmental :: "(string \<times> impact_metric) list"
  human_impact :: "(string \<times> impact_metric) list"
  timeline :: "(string \<times> (string \<times> fstring) list) list"
  asteroid_source :: string
  calculation_method :: string
  confidence_level :: real

text \<open>The default of \<^verbatim>\<open>ImpactResults.confidence_level\<close> in \<^verbatim>\<open>models/simulation.py\<close>.\<close>

definition default_confidence_level :: real where
  "default_confidence_level = 95 / 100"

text \<open>The dictionary that \<^verbatim>\<open>_calculate_comprehensive_effects\<close> returns.\<close>

record effects =
  eff_immediate :: "(string \<times> impact_metric) list"
  eff_environmental :: "(string \<times> impact_metric) list"
  eff_human_impact :: "(string \<times> impact_metric) list"
  eff_timeline :: "(string \<times> (string \<times> fstring) list) list"

text \<open>The engine object: its one field, a dictionary of strings and floats.\<close>

datatype meta_value = MStr string | MNum real

record engine =
  calculation_metadata :: "(string \<times> meta_value) list"

definition init_engine :: engine where
  "init_engine = \<lparr>calculation_metadata = []\<rparr>"

subsection \<open>Constants\<close>

definition EARTH_ESCAPE_VELOCITY :: real where
  "EARTH_ESCAPE_VELOCITY = 112 / 10"

definition AU :: real where
  "AU = 1496 * 10 ^ 8"

definition GM_sun :: real where
  "GM_sun = 1327 * 10 ^ 17"

definition MATERIAL_DENSITIES :: "(string \<times> real) list" where
  "MATERIAL_DENSITIES =
     [(''rocky'', 2600), (''iron'', 7800), (''icy'', 1000), (''stony'', 3500)]"

subsection \<open>Velocity\<close>

definition calculate_orbital_velocity :: "orbital_elements \<Rightarrow> error + real" where
  "calculate_orbital_velocity oe =
     (if \<not> truthy (semi_major_axis_au oe) then Inr 15
      else
        let a_meters = or_else (semi_major_axis_au oe) 0 * AU in
        bind_err (py_div GM_sun a_meters) (\<lambda>q.
        bind_err (py_sqrt q) (\<lambda>velocity_ms.
        Inr (velocity_ms / 1000))))"

definition calculate_impact_velocity :: "asteroid \<Rightarrow> impact_parameters \<Rightarrow> error + real" where
  "calculate_impact_velocity a p =
     (if truthy (impact_velocity_kms p) then Inr (or_else (impact_velocity_kms p) 0)
      else
        case orbital_elements a of
          None \<Rightarrow> Inr 20
        | Some oe \<Rightarrow>
            if truthy (semi_major_axis_au oe) then
              bind_err (calculate_orbital_velocity oe) (\<lambda>orbital_velocity.
              py_sqrt (orbital_velocity ^ 2 + EARTH_ESCAPE_VELOCITY ^ 2))
            else Inr 20)"

subsection \<open>Mass and density\<close>

text \<open>The local \<^verbatim>\<open>density\<close> of \<^verbatim>\<open>_calculate_asteroid_mass\<close>: \<^verbatim>\<open>dict.get\<close> with a default.\<close>

definition mass_density :: "asteroid \<Rightarrow> real" where
  "mass_density a =
     or_else (density_kg_m3 a)
       (case map_of MATERIAL_DENSITIES (composition_type a) of
          None \<Rightarrow> 2600 | Some d \<Rightarrow> d)"

definition calculate_asteroid_mass :: "asteroid \<Rightarrow> real" where
  "calculate_asteroid_mass a =
     (let diameter_km = or_else (estimated_diameter_km a) 1;
          diameter_m = diameter_km * 1000;
          radius_m = diameter_m / 2;
          volume_m3 = (4 / 3) * pi * radius_m ^ 3;
          density = mass_density a;
          mass_kg = volume_m3 * density
      in mass_kg)"

text \<open>
  The local \<^verbatim>\<open>density\<close> of \<^verbatim>\<open>calculate_impact_scenario\<close>: a subscript on the
  dictionary, evaluated only when the override is false, which raises \<^verbatim>\<open>KeyError\<close> on
  a missing key.
\<close>

definition scenario_density :: "asteroid \<Rightarrow> error + real" where
  "scenario_density a =
     (if truthy (density_kg_m3 a) then Inr (or_else (density_kg_m3 a) 0)
      else
        case map_of MATERIAL_DENSITIES (composition_type a) of
          None \<Rightarrow> Inl KeyError | Some d \<Rightarrow> Inr d)"

subsection \<open>The scaling laws\<close>

text \<open>
  The formulas are over the real numbers. They agree with the code's doubles, up to
  rounding, as long as no intermediate result leaves the range of the doubles; the
  bounds proved with the angle-sensitivity theorem give such a range.
\<close>

definition calculate_crater_diameter ::
  "real \<Rightarrow> real \<Rightarrow> real \<Rightarrow> real \<Rightarrow> real \<Rightarrow> real \<Rightarrow> error + pynum" where
  "calculate_crater_diameter energy_mt diameter_m velocity_kms density target_density angle_deg =
     (let energy_joules = energy_mt * (4184 * 10 ^ 12);
          angle_factor = sin (radians angle_deg);
          K = 125 / 100
      in bind_err (py_div (energy_joules * angle_factor) target_density) (\<lambda>q.
         Inr (pn_map (\<lambda>r. K * r) (py_pow q (25 / 100)))))"

definition peak_temperature_of :: "real \<Rightarrow> real" where
  "peak_temperature_of velocity_kms = min 100000 (velocity_kms * 2000 + 10000)"

definition calculate_thermal_effects :: "real \<Rightarrow> real \<Rightarrow> pynum \<times> real" where
  "calculate_thermal_effects energy_mt velocity_kms =
     (let fireball_radius_km = pn_map (\<lambda>r. (5 / 10) * r) (py_pow energy_mt (4 / 10));
          peak_temperature = peak_temperature_of velocity_kms
      in (fireball_radius_km, peak_temperature))"

definition calculate_shockwave_radius :: "real \<Rightarrow> real \<Rightarrow> pynum" where
  "calculate_shockwave_radius energy_mt angle_deg =
     (let angle_factor = sin (radians angle_deg);
          shockwave_radius = pn_map (\<lambda>r. 15 * r * angle_factor) (py_pow energy_mt (33 / 100))
      in shockwave_radius)"

definition calculate_seismic_magnitude :: "real \<Rightarrow> real" where
  "calculate_seismic_magnitude energy_mt =
     (if energy_mt > 0 then
        let magnitude = (log 10 (energy_mt * (4184 * 10 ^ 12)) - 48 / 10) / (15 / 10)
        in max 0 (min 10 magnitude)
      else 0)"

definition calculate_debris_field :: "real \<Rightarrow> real \<Rightarrow> pynum" where
  "calculate_debris_field energy_mt angle_deg =
     (let angle_factor = sin (radians angle_deg);
          debris_radius = pn_map (\<lambda>r. 50 * r * angle_factor) (py_pow energy_mt (3 / 10))
      in debris_radius)"

definition calculate_atmospheric_dust :: "real \<Rightarrow> real \<Rightarrow> real" where
  "calculate_atmospheric_dust energy_mt diameter_m =
     (let crater_volume = (pi / 6) * diameter_m ^ 3;
          dust_tons = crater_volume * 2600 * (1 / 10)
      in dust_tons)"

definition estimate_casualties :: "pynum \<Rightarrow> pynum \<Rightarrow> pynum" where
  "estimate_casualties shockwave_km fireball_km =
     (let lethal_area_km2 =
            pn_add (pn_map (\<lambda>f. pi * f ^ 2) fireball_km)
                   (pn_map (\<lambda>s. (5 / 10) * pi * s ^ 2) shockwave_km);
          avg_population_density = 1000;
          casualties = pn_map (\<lambda>area. area * avg_population_density * (8 / 10)) lethal_area_km2
      in casualties)"

definition estimate_refugees :: "pynum \<Rightarrow> pynum" where
  "estimate_refugees debris_km =
     (let affected_area = pn_map (\<lambda>d. pi * d ^ 2) debris_km;
          avg_population_density = 500;
          refugees = pn_map (\<lambda>area. area * avg_population_density) affected_area
      in refugees)"

subsection \<open>Severity classification\<close>

definition get_crater_severity :: "real \<Rightarrow> string" where
  "get_crater_severity diameter_km =
     (if diameter_km > 20 then ''catastrophic''
      else if diameter_km > 10 then ''severe''
      else if diameter_km > 2 then ''moderate''
      else ''minor'')"

definition get_energy_severity :: "real \<Rightarrow> string" where
  "get_energy_severity energy_mt =
     (if energy_mt > 100000 then ''catastrophic''
      else if energy_mt > 10000 then ''severe''
      else if energy_mt > 1000 then ''moderate''
      else ''minor'')"

definition get_temperature_severity :: "real \<Rightarrow> string" where
  "get_temperature_severity temp =
     (if temp > 50000 then ''catastrophic''
      else if temp > 20000 then ''severe''
      else if temp > 5000 then ''moderate''
      else ''minor'')"

definition get_fireball_severity :: "real \<Rightarrow> string" where
  "get_fireball_severity radius_km =
     (if radius_km > 100 then ''catastrophic''
      else if radius_km > 50 then ''severe''
      else if radius_km > 10 then ''moderate''
      else ''minor'')"

definition get_shockwave_severity :: "real \<Rightarrow> string" where
  "get_shockwave_severity radius_km =
     (if radius_km > 2000 then ''catastrophic''
      else if radius_km > 1000 then ''severe''
      else if radius_km > 200 then ''moderate''
      else ''minor'')"

definition get_debris_severity :: "real \<Rightarrow> string" where
  "get_debris_severity radius_km =
     (if radius_km > 5000 then ''catastrophic''
      else if radius_km > 2500 then ''severe''
      else if radius_km > 1000 then ''moderate''
      else ''minor'')"

definition get_seismic_severity :: "real \<Rightarrow> string" where
  "get_seismic_severity magnitude =
     (if magnitude > 8 then ''catastrophic''
      else if magnitude > 7 then ''severe''
      else if magnitude > 5 then ''moderate''
      else ''minor'')"

definition get_dust_severity :: "real \<Rightarrow> string" where
  "get_dust_severity billion_tons =
     (if billion_tons > 50 then ''catastrophic''
      else if billion_tons > 10 then ''severe''
      else if billion_tons > 1 then ''moderate''
      else ''minor'')"

definition get_casualty_severity :: "real \<Rightarrow> string" where
  "get_casualty_severity casualties =
     (if casualties > 5000000 then ''catastrophic''
      else if casualties > 1000000 then ''severe''
      else if casualties > 100000 then ''moderate''
      else ''minor'')"

definition get_infrastructure_severity :: "real \<Rightarrow> string" where
  "get_infrastructure_severity radius_km =
     (if radius_km > 1000 then ''catastrophic''
      else if radius_km > 500 then ''severe''
      else if radius_km > 100 then ''moderate''
      else ''minor'')"

definition get_economic_severity :: "real \<Rightarrow> string" where
  "get_economic_severity loss_billion =
     (if loss_billion > 5000 then ''catastrophic''
      else if loss_billion > 1000 then ''severe''
      else if loss_billion > 100 then ''moderate''
      else ''minor'')"

definition get_refugee_severity :: "real \<Rightarrow> string" where
  "get_refugee_severity refugees =
     (if refugees > 20000000 then ''catastrophic''
      else if refugees > 5000000 then ''severe''
      else if refugees > 1000000 then ''moderate''
      else ''minor'')"

text \<open>The order on the four severity labels: minor, moderate, severe, catastrophic.\<close>

definition severity_rank :: "string \<Rightarrow> nat option" where
  "severity_rank s =
     (if s = ''minor'' then Some 0
      else if s = ''moderate'' then Some 1
      else if s = ''severe'' then Some 2
      else if s = ''catastrophic'' then Some 3
      else None)"

definition severity_le :: "string \<Rightarrow> string \<Rightarrow> bool" where
  "severity_le s t =
     (case (severity_rank s, severity_rank t) of
        (Some i, Some j) \<Rightarrow> i \<le> j
      | _ \<Rightarrow> False)"

subsection \<open>The effects\<close>

text \<open>
  The dictionary literal that \<^verbatim>\<open>_calculate_comprehensive_effects\<close> returns, one
  definition for each of its four groups. The degree sign of the temperature unit is
  the character with code point B0.
\<close>

definition immediate_metrics ::
  "real \<Rightarrow> real \<Rightarrow> real \<Rightarrow> real \<Rightarrow> real \<Rightarrow> real \<Rightarrow> (string \<times> impact_metric) list" where
  "immediate_metrics crater_diameter_m energy_mt peak_temperature fireball_radius_km
       velocity_kms diameter_m =
     [(''craterDiameter'',
       \<lparr>metric_value = [Num Fixed1 (crater_diameter_m / 1000)],
        metric_unit = ''km'',
        severity = get_crater_severity (crater_diameter_m / 1000),
        description =
          [Lit ''Impact crater formed by '', Num Plain diameter_m,
           Lit ''m asteroid, with rim heights reaching '',
           Num Fixed0 (crater_diameter_m * (5 / 100)), Lit ''m above ground level.''],
        progress = min 100 ((crater_diameter_m / 1000 / 50) * 100),
        scientific_basis = Some ''Melosh-Ivanov scaling laws for complex craters'',
        uncertainty_range = None\<rparr>),
      (''energy'',
       \<lparr>metric_value = [Num Comma0 energy_mt],
        metric_unit = ''megatons TNT'',
        severity = get_energy_severity energy_mt,
        description =
          [Lit ''Total kinetic energy from '', Num Fixed1 velocity_kms,
           Lit '' km/s impact, calculated using enhanced orbital mechanics.''],
        progress = min 100 ((energy_mt / 1000000) * 100),
        scientific_basis = Some ''Real orbital velocity + Earth escape velocity'',
        uncertainty_range = None\<rparr>),
      (''temperature'',
       \<lparr>metric_value = [Num Comma0 peak_temperature],
        metric_unit = CHR 0xB0 # ''C'',
        severity = get_temperature_severity peak_temperature,
        description =
          [Lit ''Peak temperature at impact site from '', Num Fixed1 velocity_kms,
           Lit '' km/s collision, creating superheated plasma.''],
        progress = min 100 ((peak_temperature / 100000) * 100),
        scientific_basis = Some ''Shock physics and equation of state calculations'',
        uncertainty_range = None\<rparr>),
      (''fireballRadius'',
       \<lparr>metric_value = [Num Fixed1 fireball_radius_km],
        metric_unit = ''km'',
        severity = get_fireball_severity fireball_radius_km,
        description =
          [Lit ''Radius of superheated fireball causing thermal radiation burns and igniting fires.''],
        progress = min 100 ((fireball_radius_km / 200) * 100),
        scientific_basis = Some ''Sedov-Taylor blast wave solution'',
        uncertainty_range = None\<rparr>)]"

definition environmental_metrics ::
  "real \<Rightarrow> real \<Rightarrow> real \<Rightarrow> real \<Rightarrow> real \<Rightarrow> real \<Rightarrow> real \<Rightarrow> (string \<times> impact_metric) list" where
  "environmental_metrics shockwave_radius_km debris_radius_km seismic_magnitude
       atmospheric_dust_tons energy_mt crater_diameter_m diameter_m =
     [(''shockwaveRadius'',
       \<lparr>metric_value = [Num Fixed1 shockwave_radius_km],
        metric_unit = ''km'',
        severity = get_shockwave_severity shockwave_radius_km,
        description =
          [Lit ''Radius of destructive shockwave from '', Num Comma0 energy_mt,
           Lit '' MT explosion, causing building collapse.''],
        progress = min 100 ((shockwave_radius_km / 3000) * 100),
        scientific_basis = Some ''Atmospheric blast wave propagation models'',
        uncertainty_range = None\<rparr>),
      (''debrisFieldRadius'',
       \<lparr>metric_value = [Num Fixed1 debris_radius_km],
        metric_unit = ''km'',
        severity = get_debris_severity debris_radius_km,
        description =
          [Lit ''Area covered by ejected debris and impact fragments from '',
           Num Fixed1 (crater_diameter_m / 1000), Lit ''km crater.''],
        progress = min 100 ((debris_radius_km / 8000) * 100),
        scientific_basis = Some ''Ballistic trajectory modeling of ejecta'',
        uncertainty_range = None\<rparr>),
      (''seismicMagnitude'',
       \<lparr>metric_value = [Num Fixed1 seismic_magnitude],
        metric_unit = ''magnitude'',
        severity = get_seismic_severity seismic_magnitude,
        description =
          [Lit ''Earthquake magnitude from '', Num Comma0 energy_mt,
           Lit '' MT impact, generating global seismic waves.''],
        progress = min 100 ((seismic_magnitude / 10) * 100),
        scientific_basis = Some ''Energy-magnitude scaling relationships'',
        uncertainty_range = None\<rparr>),
      (''atmosphericDust'',
       \<lparr>metric_value = [Num Fixed1 (atmospheric_dust_tons / 10 ^ 9)],
        metric_unit = ''billion tons'',
        severity = get_dust_severity (atmospheric_dust_tons / 10 ^ 9),
        description =
          [Lit ''Dust and debris ejected into atmosphere from '', Num Plain diameter_m,
           Lit ''m asteroid impact.''],
        progress = min 100 ((atmospheric_dust_tons / 10 ^ 9 / 100) * 100),
        scientific_basis = Some ''Impact ejecta scaling and atmospheric modeling'',
        uncertainty_range = None\<rparr>)]"

definition human_impact_metrics ::
  "real \<Rightarrow> real \<Rightarrow> real \<Rightarrow> real \<Rightarrow> real \<Rightarrow> real \<Rightarrow> (string \<times> impact_metric) list" where
  "human_impact_metrics casualties infrastructure_damage_km economic_loss_billion refugees
       shockwave_radius_km debris_radius_km =
     [(''casualtiesImmediate'',
       \<lparr>metric_value = [Num Comma0 casualties],
        metric_unit = ''estimated casualties'',
        severity = get_casualty_severity casualties,
        description =
          [Lit ''Immediate casualties from thermal radiation, shockwave, and debris within '',
           Num Fixed0 shockwave_radius_km, Lit ''km radius.''],
        progress = min 100 ((casualties / 10000000) * 100),
        scientific_basis = Some ''Population density models and lethality curves'',
        uncertainty_range = None\<rparr>),
      (''infrastructureDamage'',
       \<lparr>metric_value = [Num Fixed0 infrastructure_damage_km],
        metric_unit = ''km radius affected'',
        severity = get_infrastructure_severity infrastructure_damage_km,
        description =
          [Lit ''Radius of severe infrastructure damage including buildings, roads, and utilities.''],
        progress = min 100 ((infrastructure_damage_km / 2000) * 100),
        scientific_basis = Some ''Engineering failure analysis and overpressure thresholds'',
        uncertainty_range = None\<rparr>),
      (''economicLoss'',
       \<lparr>metric_value = [Num Comma0 economic_loss_billion],
        metric_unit = ''billion USD'',
        severity = get_economic_severity economic_loss_billion,
        description =
          [Lit ''Estimated economic losses from infrastructure damage and business disruption.''],
        progress = min 100 ((economic_loss_billion / 10000) * 100),
        scientific_basis = Some ''Disaster economics and regional GDP impact models'',
        uncertainty_range = None\<rparr>),
      (''refugeePopulation'',
       \<lparr>metric_value = [Num Comma0 refugees],
        metric_unit = ''displaced persons'',
        severity = get_refugee_severity refugees,
        description =
          [Lit ''Population requiring evacuation due to impact effects across '',
           Num Fixed0 debris_radius_km, Lit ''km radius.''],
        progress = min 100 ((refugees / 50000000) * 100),
        scientific_basis = Some ''Evacuation zone modeling and population displacement studies'',
        uncertainty_range = None\<rparr>)]"

definition timeline_entries ::
  "real \<Rightarrow> real \<Rightarrow> real \<Rightarrow> (string \<times> (string \<times> fstring) list) list" where
  "timeline_entries fireball_radius_km shockwave_radius_km seismic_magnitude =
     [(''t0'', [(''time'', [Lit ''0 seconds'']),
               (''event'', [Lit ''Initial impact and crater excavation begins''])]),
      (''t1'', [(''time'', [Lit ''1 second'']),
               (''event'', [Lit ''Fireball reaches '', Num Fixed1 fireball_radius_km,
                            Lit ''km radius''])]),
      (''t2'', [(''time'', [Lit ''10 seconds'']),
               (''event'', [Lit ''Thermal radiation pulse at maximum intensity''])]),
      (''t3'', [(''time'', [Num Fixed0 (shockwave_radius_km / (34 / 100)), Lit '' seconds'']),
               (''event'', [Lit ''Shockwave reaches maximum extent''])]),
      (''t4'', [(''time'', [Lit ''5 minutes'']),
               (''event'', [Lit ''Ballistic ejecta begins falling back to Earth''])]),
      (''t5'', [(''time'', [Lit ''30 minutes'']),
               (''event'', [Lit ''Seismic magnitude '', Num Fixed1 seismic_magnitude,
                            Lit '' waves circle the globe''])]),
      (''t6'', [(''time'', [Lit ''2 hours'']),
               (''event'', [Lit ''Atmospheric dust begins affecting regional weather''])]),
      (''t7'', [(''time'', [Lit ''24 hours'']),
               (''event'', [Lit ''Global atmospheric effects become apparent''])]),
      (''t8'', [(''time'', [Lit ''1 week'']),
               (''event'', [Lit ''Long-term environmental and climate impacts emerge''])])]"

text \<open>
  \<^verbatim>\<open>_calculate_comprehensive_effects\<close>. The quantities are computed first, as in the
  source. Building the literal then compares seven of them with the severity
  thresholds, in the order of the literal: a complex one raises \<^verbatim>\<open>TypeError\<close> there.
  The keyword argument \<^verbatim>\<open>location\<close> is never read and is left out.
\<close>

definition calculate_comprehensive_effects ::
  "real \<Rightarrow> real \<Rightarrow> real \<Rightarrow> real \<Rightarrow> real \<Rightarrow> real \<Rightarrow> real \<Rightarrow> error + effects" where
  "calculate_comprehensive_effects energy_mt mass_kg velocity_kms diameter_m density
       angle_deg target_density =
     bind_err (calculate_crater_diameter energy_mt diameter_m velocity_kms density
                 target_density angle_deg) (\<lambda>crater_diameter_m.
     let (fireball_radius_km, peak_temperature) =
           calculate_thermal_effects energy_mt velocity_kms;
         shockwave_radius_km = calculate_shockwave_radius energy_mt angle_deg;
         seismic_magnitude = calculate_seismic_magnitude energy_mt;
         debris_radius_km = calculate_debris_field energy_mt angle_deg;
         atmospheric_dust_tons = calculate_atmospheric_dust energy_mt diameter_m;
         casualties = estimate_casualties shockwave_radius_km fireball_radius_km;
         infrastructure_damage_km = pn_map (\<lambda>s. s * (15 / 10)) shockwave_radius_km;
         economic_loss_billion = energy_mt * (1 / 10);
         refugees = estimate_refugees debris_radius_km
     in
     bind_err (ordered crater_diameter_m) (\<lambda>crater.
     bind_err (ordered fireball_radius_km) (\<lambda>fireball.
     bind_err (ordered shockwave_radius_km) (\<lambda>shockwave.
     bind_err (ordered debris_radius_km) (\<lambda>debris.
     bind_err (ordered casualties) (\<lambda>cas.
     bind_err (ordered infrastructure_damage_km) (\<lambda>infra.
     bind_err (ordered refugees) (\<lambda>refu.
     Inr \<lparr>eff_immediate =
            immediate_metrics crater energy_mt peak_temperature fireball velocity_kms diameter_m,
          eff_environmental =
            environmental_metrics shockwave debris seismic_magnitude atmospheric_dust_tons
              energy_mt crater diameter_m,
          eff_human_impact =
            human_impact_metrics cas infra economic_loss_billion refu shockwave debris,
          eff_timeline = timeline_entries fireball shockwave seismic_magnitude\<rparr>))))))))"

subsection \<open>The main calculation\<close>

text \<open>
  \<^verbatim>\<open>calculate_impact_scenario\<close>, with the engine object passed in and returned: the
  method assigns to \<^verbatim>\<open>self.calculation_metadata\<close> after the effects are computed, so
  an exception raised before leaves the object as it was. The asteroid and the
  parameters are only read. The two calls of the logger are not modelled.
\<close>

definition calculate_impact_scenario ::
  "engine \<Rightarrow> asteroid \<Rightarrow> impact_parameters \<Rightarrow> (error + impact_results) \<times> engine" where
  "calculate_impact_scenario self a p =
     (case calculate_impact_velocity a p of
        Inl e \<Rightarrow> (Inl e, self)
      | Inr impact_velocity \<Rightarrow>
          let mass_kg = calculate_asteroid_mass a in
          (case scenario_density a of
             Inl e \<Rightarrow> (Inl e, self)
           | Inr density \<Rightarrow>
               let diameter_m = or_else (estimated_diameter_km a) 1 * 1000;
                   kinetic_energy_joules = (5 / 10) * mass_kg * (impact_velocity * 1000) ^ 2;
                   energy_megatons = kinetic_energy_joules / (4184 * 10 ^ 12)
               in
               (case calculate_comprehensive_effects energy_megatons mass_kg impact_velocity
                       diameter_m density (impact_angle_deg p) (target_density_kg_m3 p) of
                  Inl e \<Rightarrow> (Inl e, self)
                | Inr results \<Rightarrow>
                    (Inr \<lparr>immediate = eff_immediate results,
                          environmental = eff_environmental results,
                          human_impact = eff_human_impact results,
                          timeline = eff_timeline results,
                          asteroid_source = ''nasa_neo'',
                          calculation_method = ''enhanced_physics'',
                          confidence_level = 85 / 100\<rparr>,
                     self\<lparr>calculation_metadata :=
                       [(''asteroid_source'', MStr ''nasa_neo''),
                        (''calculation_method'', MStr ''enhanced_physics''),
                        (''impact_velocity_used'', MNum impact_velocity),
                        (''asteroid_mass_kg'', MNum mass_kg),
                        (''kinetic_energy_mt'', MNum energy_megatons),
                        (''nasa_asteroid_id'', MStr (nasa_id a))]\<rparr>))))"

subsection \<open>Reading a result\<close>

text \<open>
  The kinetic energy in megatons that \<^verbatim>\<open>calculate_impact_scenario\<close> computes from the
  asteroid and the resolved velocity (its locals \<^verbatim>\<open>kinetic_energy_joules\<close> and
  \<^verbatim>\<open>energy_megatons\<close>).
\<close>

definition energy_megatons_of :: "asteroid \<Rightarrow> real \<Rightarrow> real" where
  "energy_megatons_of a impact_velocity =
     (5 / 10) * calculate_asteroid_mass a * (impact_velocity * 1000) ^ 2 / (4184 * 10 ^ 12)"

text \<open>The values of the scaling laws where they are floats.\<close>

definition crater_base :: "real \<Rightarrow> real \<Rightarrow> real \<Rightarrow> real" where
  "crater_base energy_mt target_density angle_deg =
     energy_mt * (4184 * 10 ^ 12) * sin (radians angle_deg) / target_density"

definition crater_float :: "real \<Rightarrow> real \<Rightarrow> real \<Rightarrow> real" where
  "crater_float energy_mt target_density angle_deg =
     (125 / 100) * crater_base energy_mt target_density angle_deg powr (25 / 100)"

definition fireball_float :: "real \<Rightarrow> real" where
  "fireball_float energy_mt = (5 / 10) * energy_mt powr (4 / 10)"

definition shockwave_float :: "real \<Rightarrow> real \<Rightarrow> real" where
  "shockwave_float energy_mt angle_deg =
     15 * energy_mt powr (33 / 100) * sin (radians angle_deg)"

definition debris_float :: "real \<Rightarrow> real \<Rightarrow> real" where
  "debris_float energy_mt angle_deg =
     50 * energy_mt powr (3 / 10) * sin (radians angle_deg)"

definition casualties_float :: "real \<Rightarrow> real \<Rightarrow> real" where
  "casualties_float energy_mt angle_deg =
     (pi * fireball_float energy_mt ^ 2
        + (5 / 10) * pi * shockwave_float energy_mt angle_deg ^ 2) * 1000 * (8 / 10)"

definition refugees_float :: "real \<Rightarrow> real \<Rightarrow> real" where
  "refugees_float energy_mt angle_deg = pi * debris_float energy_mt angle_deg ^ 2 * 500"

text \<open>The metric stored under a key of one group of a result, if the call returned one.\<close>

definition result_metric ::
  "error + impact_results \<Rightarrow> (impact_results \<Rightarrow> (string \<times> impact_metric) list) \<Rightarrow> string
     \<Rightarrow> impact_metric option" where
  "result_metric res grp k = (case res of Inl e \<Rightarrow> None | Inr r \<Rightarrow> map_of (grp r) k)"

text \<open>The number that a metric's \<^verbatim>\<open>value\<close> formats.\<close>

definition metric_number :: "impact_metric \<Rightarrow> real option" where
  "metric_number m = (case metric_value m of [Num f x] \<Rightarrow> Some x | _ \<Rightarrow> None)"

text \<open>A float stored in the engine's metadata.\<close>

definition metadata_num :: "engine \<Rightarrow> string \<Rightarrow> real option" where
  "metadata_num s k =
     (case map_of (calculation_metadata s) k of Some (MNum x) \<Rightarrow> Some x | _ \<Rightarrow> None)"





text \<open>The semi-major axis of an asteroid, when it has orbital elements.\<close>

definition axis_of :: "asteroid \<Rightarrow> real option" where
  "axis_of a =
     (case orbital_elements a of None \<Rightarrow> None | Some oe \<Rightarrow> semi_major_axis_au oe)"

text \<open>
  An optional float that is absent or at least \<open>b\<close>; one that is present and strictly
  between two bounds.
\<close>

definition option_ge :: "real \<Rightarrow> real option \<Rightarrow> bool" where
  "option_ge b v = (case v of None \<Rightarrow> True | Some x \<Rightarrow> b \<le> x)"

definition option_between :: "real \<Rightarrow> real \<Rightarrow> real option \<Rightarrow> bool" where
  "option_between lo hi v = (case v of None \<Rightarrow> False | Some x \<Rightarrow> lo < x \<and> x < hi)"

subsection \<open>The scenario of the specification\<close>

text \<open>
  Diameter 1.0 km, composition rocky with no density override, no orbital elements, no
  velocity override, angle 45 degrees, target density 2700.
\<close>

definition scenario_asteroid :: asteroid where
  "scenario_asteroid =
     \<lparr>nasa_id = ''scenario'', name = ''scenario'', estimated_diameter_km = Some 1,
      orbital_elements = None, composition_type = ''rocky'', density_kg_m3 = None\<rparr>"

definition scenario_parameters :: impact_parameters where
  "scenario_parameters =
     \<lparr>asteroid_nasa_id = ''scenario'', impact_velocity_kms = None, impact_angle_deg = 45,
      target_density_kg_m3 = 2700\<rparr>"

definition scenario_run :: "(error + impact_results) \<times> engine" where
  "scenario_run = calculate_impact_scenario init_engine scenario_asteroid scenario_parameters"

subsection \<open>Objects and references\<close>





lemma sum_lessThan_7:
  fixes g :: "nat \<Rightarrow> real"
  shows "(\<Sum>m<7. g m) = g 0 + g (Suc 0) + g 2 + g 3 + g 4 + g 5 + g 6"
  by (simp add: eval_nat_numeral)

lemma sin_coeff_1: "sin_coeff (Suc 0) = 1"
  by (simp add: sin_coeff_def)

lemma sin_coeffs:
  "sin_coeff 2 = 0" "sin_coeff 3 = - 1 / 6" "sin_coeff 4 = 0"
  "sin_coeff 5 = 1 / 120" "sin_coeff 6 = 0"
  by (simp_all add: sin_coeff_def fact_numeral)

lemma sin_poly_sum:
  fixes x :: real
  shows "(\<Sum>m<7. sin_coeff m * x ^ m) = x - x^3/6 + x^5/120"
  unfolding sum_lessThan_7 sin_coeff_1 sin_coeffs by simp

lemma sin_poly_bound:
  fixes x :: real
  assumes "0 \<le> x"
  shows "\<bar>sin x - (x - x^3/6 + x^5/120)\<bar> \<le> x^7 / 5040"
proof -
  have "fact 7 = (5040 :: real)"
    by (simp add: fact_numeral)
  then have "inverse (fact 7) * \<bar>x\<bar> ^ 7 = x^7 / 5040"
    using assms by (simp add: inverse_eq_divide)
  then show ?thesis
    using Maclaurin_sin_bound[of x 7] unfolding sin_poly_sum by simp
qed

lemma pi_gt_3141: "3141 / 1000 < pi"
proof -
  let ?x = "1047 / 2000 :: real"
  have "sin ?x \<le> (?x - ?x^3/6 + ?x^5/120) + ?x^7 / 5040"
    using sin_poly_bound[of ?x] by linarith
  also have "\<dots> < 1 / 2" by (simp add: power_divide)
  finally have "sin ?x < sin (pi / 6)" by (simp add: sin_30)
  moreover have "- (pi / 2) \<le> ?x" "?x \<le> pi / 2" "- (pi / 2) \<le> pi / 6" "pi / 6 \<le> pi / 2"
    using pi_ge_two by simp_all
  ultimately have "?x < pi / 6"
    using sin_mono_less_eq[of ?x "pi / 6"] by blast
  then show ?thesis by simp
qed

lemma pi_lt_3142: "pi < 3142 / 1000"
proof -
  let ?x = "1571 / 3000 :: real"
  have "1 / 2 < (?x - ?x^3/6 + ?x^5/120) - ?x^7 / 5040" by (simp add: power_divide)
  also have "\<dots> \<le> sin ?x"
    using sin_poly_bound[of ?x] by linarith
  finally have "sin (pi / 6) < sin ?x" by (simp add: sin_30)
  moreover have "- (pi / 2) \<le> ?x" "?x \<le> pi / 2" "- (pi / 2) \<le> pi / 6" "pi / 6 \<le> pi / 2"
    using pi_ge_two by simp_all
  ultimately have "pi / 6 < ?x"
    using sin_mono_less_eq[of "pi / 6" ?x] by blast
  then show ?thesis by simp
qed

lemma crater_diameter_eq:
  "calculate_crater_diameter E d v \<rho> \<rho>t ang =
     (if \<rho>t = 0 then Inl ZeroDivisionError
      else if crater_base E \<rho>t ang < 0 then Inr PyComplex
      else Inr (PyFloat (crater_float E \<rho>t ang)))"
  by (simp add: calculate_crater_diameter_def py_div_def bind_err_def py_pow_def
        crater_base_def crater_float_def Let_def)

lemma thermal_effects_eq:
  "calculate_thermal_effects E v =
     (if E < 0 then PyComplex else PyFloat (fireball_float E), peak_temperature_of v)"
  by (simp add: calculate_thermal_effects_def py_pow_def fireball_float_def Let_def)

lemma shockwave_radius_eq:
  "calculate_shockwave_radius E ang =
     (if E < 0 then PyComplex else PyFloat (shockwave_float E ang))"
  by (simp add: calculate_shockwave_radius_def py_pow_def shockwave_float_def Let_def)

lemma debris_field_eq:
  "calculate_debris_field E ang =
     (if E < 0 then PyComplex else PyFloat (debris_float E ang))"
  by (simp add: calculate_debris_field_def py_pow_def debris_float_def Let_def)

lemma estimate_casualties_eq:
  "estimate_casualties (PyFloat (shockwave_float E ang)) (PyFloat (fireball_float E)) =
     PyFloat (casualties_float E ang)"
  by (simp add: estimate_casualties_def casualties_float_def Let_def)

lemma estimate_refugees_eq:
  "estimate_refugees (PyFloat (debris_float E ang)) = PyFloat (refugees_float E ang)"
  by (simp add: estimate_refugees_def refugees_float_def Let_def)

lemma comprehensive_effects_eq:
  "calculate_comprehensive_effects E m v d \<rho> ang \<rho>t =
     (if \<rho>t = 0 then Inl ZeroDivisionError
      else if crater_base E \<rho>t ang < 0 \<or> E < 0 then Inl TypeError
      else Inr \<lparr>eff_immediate =
                  immediate_metrics (crater_float E \<rho>t ang) E (peak_temperature_of v)
                    (fireball_float E) v d,
                eff_environmental =
                  environmental_metrics (shockwave_float E ang) (debris_float E ang)
                    (calculate_seismic_magnitude E) (calculate_atmospheric_dust E d) E
                    (crater_float E \<rho>t ang) d,
                eff_human_impact =
                  human_impact_metrics (casualties_float E ang)
                    (shockwave_float E ang * (15 / 10)) (E * (1 / 10))
                    (refugees_float E ang) (shockwave_float E ang) (debris_float E ang),
                eff_timeline =
                  timeline_entries (fireball_float E) (shockwave_float E ang)
                    (calculate_seismic_magnitude E)\<rparr>)"
  by (simp add: calculate_comprehensive_effects_def crater_diameter_eq thermal_effects_eq
        shockwave_radius_eq debris_field_eq bind_err_def estimate_casualties_eq
        estimate_refugees_eq Let_def)

lemma scenario_velocity:
  "calculate_impact_velocity scenario_asteroid scenario_parameters = Inr 20"
  by (simp add: calculate_impact_velocity_def scenario_asteroid_def scenario_parameters_def
        truthy_def)

lemma scenario_mass_eq:
  "calculate_asteroid_mass scenario_asteroid = pi * (1300000000000 / 3)"
  by (simp add: calculate_asteroid_mass_def mass_density_def scenario_asteroid_def
        or_else_def MATERIAL_DENSITIES_def Let_def)

lemma scenario_density_eq: "scenario_density scenario_asteroid = Inr 2600"
  by (simp add: scenario_density_def scenario_asteroid_def truthy_def MATERIAL_DENSITIES_def)

lemma scenario_mass_bounds:
  "1361 * 10 ^ 9 < calculate_asteroid_mass scenario_asteroid"
  "calculate_asteroid_mass scenario_asteroid < 1362 * 10 ^ 9"
  using pi_gt_3141 pi_lt_3142 by (simp_all add: scenario_mass_eq)

lemma scenario_energy_eq:
  "energy_megatons_of scenario_asteroid 20 = pi * (3250000000 / 156900)"
  by (simp add: energy_megatons_of_def scenario_mass_eq)

lemma scenario_energy_bounds:
  "65000 < energy_megatons_of scenario_asteroid 20"
  "energy_megatons_of scenario_asteroid 20 < 65100"
  using pi_gt_3141 pi_lt_3142 by (simp_all add: scenario_energy_eq)

lemma powr_ratio_lower:
  fixes a b :: real
  assumes "0 < a" "0 < b" "0 < n" "a ^ n < b ^ k"
  shows "a < b powr (real k / real n)"
proof -
  have "a = (a powr real n) powr (1 / real n)"
    using assms by (simp add: powr_powr)
  also have "\<dots> = (a ^ n) powr (1 / real n)"
    using assms by (simp add: powr_realpow)
  also have "\<dots> < (b ^ k) powr (1 / real n)"
    using assms by (intro powr_less_mono2) simp_all
  also have "\<dots> = (b powr real k) powr (1 / real n)"
    using assms by (simp add: powr_realpow)
  also have "\<dots> = b powr (real k / real n)"
    by (simp add: powr_powr)
  finally show ?thesis .
qed

lemma powr_ratio_upper:
  fixes a b :: real
  assumes "0 < a" "0 < b" "0 < n" "b ^ k < a ^ n"
  shows "b powr (real k / real n) < a"
proof -
  have "b powr (real k / real n) = (b powr real k) powr (1 / real n)"
    by (simp add: powr_powr)
  also have "\<dots> = (b ^ k) powr (1 / real n)"
    using assms by (simp add: powr_realpow)
  also have "\<dots> < (a ^ n) powr (1 / real n)"
    using assms by (intro powr_less_mono2) simp_all
  also have "\<dots> = (a powr real n) powr (1 / real n)"
    using assms by (simp add: powr_realpow)
  also have "\<dots> = a"
    using assms by (simp add: powr_powr)
  finally show ?thesis .
qed

lemma sqrt2_bounds: "1414 / 1000 < sqrt 2" "sqrt 2 < 1415 / 1000"
proof -
  have "sqrt ((1414 / 1000)^2) < sqrt 2"
    by (subst real_sqrt_less_iff) (simp add: power_divide)
  then show "1414 / 1000 < sqrt 2" by simp
  have "sqrt 2 < sqrt ((1415 / 1000)^2)"
    by (subst real_sqrt_less_iff) (simp add: power_divide)
  then show "sqrt 2 < 1415 / 1000" by simp
qed

lemma sin_radians_45: "sin (radians 45) = sqrt 2 / 2"
proof -
  have r: "radians 45 = pi / 4" by (simp add: radians_def)
  show ?thesis unfolding r by (rule sin_45)
qed

lemma scenario_crater_base_eq:
  "crater_base (energy_megatons_of scenario_asteroid 20) 2700 45
     = pi * sqrt 2 * (1300000000000000000 / 81)"
  by (simp add: crater_base_def scenario_energy_eq sin_radians_45)

lemma scenario_crater_base_bounds:
  "16000 ^ 4 < crater_base (energy_megatons_of scenario_asteroid 20) 2700 45"
  "crater_base (energy_megatons_of scenario_asteroid 20) 2700 45 < 16800 ^ 4"
proof -
  have lo: "(3141 / 1000) * (1414 / 1000) < pi * sqrt 2"
    using pi_gt_3141 sqrt2_bounds(1) by (intro mult_strict_mono) simp_all
  have hi: "pi * sqrt 2 < (3142 / 1000) * (1415 / 1000)"
    using pi_lt_3142 sqrt2_bounds(2) by (intro mult_strict_mono) simp_all
  show "16000 ^ 4 < crater_base (energy_megatons_of scenario_asteroid 20) 2700 45"
    using lo by (simp add: scenario_crater_base_eq)
  show "crater_base (energy_megatons_of scenario_asteroid 20) 2700 45 < 16800 ^ 4"
    using hi by (simp add: scenario_crater_base_eq)
qed

lemma scenario_crater_bounds:
  "20000 < crater_float (energy_megatons_of scenario_asteroid 20) 2700 45"
  "crater_float (energy_megatons_of scenario_asteroid 20) 2700 45 < 21000"
proof -
  let ?b = "crater_base (energy_megatons_of scenario_asteroid 20) 2700 45"
  have pos: "0 < ?b" using scenario_crater_base_bounds(1) by simp
  have "16000 < ?b powr (real 1 / real 4)"
    using pos scenario_crater_base_bounds(1) by (intro powr_ratio_lower) simp_all
  then show "20000 < crater_float (energy_megatons_of scenario_asteroid 20) 2700 45"
    by (simp add: crater_float_def)
  have "?b powr (real 1 / real 4) < 16800"
    using pos scenario_crater_base_bounds(2) by (intro powr_ratio_upper) simp_all
  then show "crater_float (energy_megatons_of scenario_asteroid 20) 2700 45 < 21000"
    by (simp add: crater_float_def)
qed

lemma scenario_fireball_bounds:
  "40 < fireball_float (energy_megatons_of scenario_asteroid 20)"
  "fireball_float (energy_megatons_of scenario_asteroid 20) < 50"
proof -
  let ?E = "energy_megatons_of scenario_asteroid 20"
  have E: "65000 < ?E" "?E < 65100" by (rule scenario_energy_bounds)+
  have "(80::real) ^ 5 < 65000 ^ 2" by simp
  also have "\<dots> < ?E ^ 2" using E(1) by (intro power_strict_mono) simp_all
  finally have "80 < ?E powr (real 2 / real 5)"
    using E(1) by (intro powr_ratio_lower) simp_all
  then show "40 < fireball_float ?E" by (simp add: fireball_float_def)
  have "?E ^ 2 < 65100 ^ 2" using E by (intro power_strict_mono) simp_all
  also have "\<dots> < (100::real) ^ 5" by simp
  finally have "?E powr (real 2 / real 5) < 100"
    using E(1) by (intro powr_ratio_upper) simp_all
  then show "fireball_float ?E < 50" by (simp add: fireball_float_def)
qed

lemma impact_scenario_eq:
  "calculate_impact_scenario s a p =
     (case calculate_impact_velocity a p of
        Inl e \<Rightarrow> (Inl e, s)
      | Inr v \<Rightarrow>
          (case scenario_density a of
             Inl e \<Rightarrow> (Inl e, s)
           | Inr \<rho> \<Rightarrow>
               (case calculate_comprehensive_effects (energy_megatons_of a v)
                       (calculate_asteroid_mass a) v (or_else (estimated_diameter_km a) 1 * 1000)
                       \<rho> (impact_angle_deg p) (target_density_kg_m3 p) of
                  Inl e \<Rightarrow> (Inl e, s)
                | Inr results \<Rightarrow>
                    (Inr \<lparr>immediate = eff_immediate results,
                          environmental = eff_environmental results,
                          human_impact = eff_human_impact results,
                          timeline = eff_timeline results,
                          asteroid_source = ''nasa_neo'',
                          calculation_method = ''enhanced_physics'',
                          confidence_level = 85 / 100\<rparr>,
                     s\<lparr>calculation_metadata :=
                       [(''asteroid_source'', MStr ''nasa_neo''),
                        (''calculation_method'', MStr ''enhanced_physics''),
                        (''impact_velocity_used'', MNum v),
                        (''asteroid_mass_kg'', MNum (calculate_asteroid_mass a)),
                        (''kinetic_energy_mt'', MNum (energy_megatons_of a v)),
                        (''nasa_asteroid_id'', MStr (nasa_id a))]\<rparr>))))"
  by (simp add: calculate_impact_scenario_def energy_megatons_of_def Let_def
           split: sum.splits)

lemma scenario_effects:
  "calculate_comprehensive_effects (energy_megatons_of scenario_asteroid 20) m 20 1000 2600 45 2700 =
     Inr \<lparr>eff_immediate =
            immediate_metrics (crater_float (energy_megatons_of scenario_asteroid 20) 2700 45)
              (energy_megatons_of scenario_asteroid 20) (peak_temperature_of 20)
              (fireball_float (energy_megatons_of scenario_asteroid 20)) 20 1000,
          eff_environmental =
            environmental_metrics (shockwave_float (energy_megatons_of scenario_asteroid 20) 45)
              (debris_float (energy_megatons_of scenario_asteroid 20) 45)
              (calculate_seismic_magnitude (energy_megatons_of scenario_asteroid 20))
              (calculate_atmospheric_dust (energy_megatons_of scenario_asteroid 20) 1000)
              (energy_megatons_of scenario_asteroid 20)
              (crater_float (energy_megatons_of scenario_asteroid 20) 2700 45) 1000,
          eff_human_impact =
            human_impact_metrics (casualties_float (energy_megatons_of scenario_asteroid 20) 45)
              (shockwave_float (energy_megatons_of scenario_asteroid 20) 45 * (15 / 10))
              (energy_megatons_of scenario_asteroid 20 * (1 / 10))
              (refugees_float (energy_megatons_of scenario_asteroid 20) 45)
              (shockwave_float (energy_megatons_of scenario_asteroid 20) 45)
              (debris_float (energy_megatons_of scenario_asteroid 20) 45),
          eff_timeline =
            timeline_entries (fireball_float (energy_megatons_of scenario_asteroid 20))
              (shockwave_float (energy_megatons_of scenario_asteroid 20) 45)
              (calculate_seismic_magnitude (energy_megatons_of scenario_asteroid 20))\<rparr>"
proof -
  have "\<not> crater_base (energy_megatons_of scenario_asteroid 20) 2700 45 < 0"
    using scenario_crater_base_bounds(1) by simp
  moreover have "\<not> energy_megatons_of scenario_asteroid 20 < 0"
    using scenario_energy_bounds(1) by simp
  ultimately show ?thesis
    by (simp add: comprehensive_effects_eq)
qed

lemma scenario_run_fst:
  "fst scenario_run =
     Inr \<lparr>immediate =
            immediate_metrics (crater_float (energy_megatons_of scenario_asteroid 20) 2700 45)
              (energy_megatons_of scenario_asteroid 20) (peak_temperature_of 20)
              (fireball_float (energy_megatons_of scenario_asteroid 20)) 20 1000,
          environmental =
            environmental_metrics (shockwave_float (energy_megatons_of scenario_asteroid 20) 45)
              (debris_float (energy_megatons_of scenario_asteroid 20) 45)
              (calculate_seismic_magnitude (energy_megatons_of scenario_asteroid 20))
              (calculate_atmospheric_dust (energy_megatons_of scenario_asteroid 20) 1000)
              (energy_megatons_of scenario_asteroid 20)
              (crater_float (energy_megatons_of scenario_asteroid 20) 2700 45) 1000,
          human_impact =
            human_impact_metrics (casualties_float (energy_megatons_of scenario_asteroid 20) 45)
              (shockwave_float (energy_megatons_of scenario_asteroid 20) 45 * (15 / 10))
              (energy_megatons_of scenario_asteroid 20 * (1 / 10))
              (refugees_float (energy_megatons_of scenario_asteroid 20) 45)
              (shockwave_float (energy_megatons_of scenario_asteroid 20) 45)
              (debris_float (energy_megatons_of scenario_asteroid 20) 45),
          timeline =
            timeline_entries (fireball_float (energy_megatons_of scenario_asteroid 20))
              (shockwave_float (energy_megatons_of scenario_asteroid 20) 45)
              (calculate_seismic_magnitude (energy_megatons_of scenario_asteroid 20)),
          asteroid_source = ''nasa_neo'',
          calculation_method = ''enhanced_physics'',
          confidence_level = 85 / 100\<rparr>"
proof -
  have d: "or_else (estimated_diameter_km scenario_asteroid) 1 * 1000 = 1000"
    by (simp add: scenario_asteroid_def or_else_def)
  have a: "impact_angle_deg scenario_parameters = 45"
    "target_density_kg_m3 scenario_parameters = 2700"
    by (simp_all add: scenario_parameters_def)
  show ?thesis
    by (simp add: scenario_run_def impact_scenario_eq scenario_velocity scenario_density_eq
          d a scenario_effects)
qed

lemma scenario_run_snd:
  "snd scenario_run =
     \<lparr>calculation_metadata =
        [(''asteroid_source'', MStr ''nasa_neo''),
         (''calculation_method'', MStr ''enhanced_physics''),
         (''impact_velocity_used'', MNum 20),
         (''asteroid_mass_kg'', MNum (calculate_asteroid_mass scenario_asteroid)),
         (''kinetic_energy_mt'', MNum (energy_megatons_of scenario_asteroid 20)),
         (''nasa_asteroid_id'', MStr ''scenario'')]\<rparr>"
proof -
  have d: "or_else (estimated_diameter_km scenario_asteroid) 1 * 1000 = 1000"
    by (simp add: scenario_asteroid_def or_else_def)
  have a: "impact_angle_deg scenario_parameters = 45"
    "target_density_kg_m3 scenario_parameters = 2700"
    by (simp_all add: scenario_parameters_def)
  have n: "nasa_id scenario_asteroid = ''scenario''"
    by (simp add: scenario_asteroid_def)
  show ?thesis
    by (simp add: scenario_run_def impact_scenario_eq scenario_velocity scenario_density_eq
          d a n scenario_effects init_engine_def)
qed

lemma scenario_crater_metric:
  "Option.bind (result_metric (fst scenario_run) immediate ''craterDiameter'') metric_number
     = Some (crater_float (energy_megatons_of scenario_asteroid 20) 2700 45 / 1000)"
  "map_option severity (result_metric (fst scenario_run) immediate ''craterDiameter'')
     = Some ''catastrophic''"
  using scenario_crater_bounds(1)
  by (simp_all add: scenario_run_fst result_metric_def immediate_metrics_def
        metric_number_def get_crater_severity_def)

lemma scenario_energy_metric:
  "map_option severity (result_metric (fst scenario_run) immediate ''energy'') = Some ''severe''"
  using scenario_energy_bounds
  by (simp add: scenario_run_fst result_metric_def immediate_metrics_def
        get_energy_severity_def)

lemma scenario_temperature_metric:
  "map_option severity (result_metric (fst scenario_run) immediate ''temperature'')
     = Some ''severe''"
  by (simp add: scenario_run_fst result_metric_def immediate_metrics_def
        get_temperature_severity_def peak_temperature_of_def)

lemma scenario_fireball_metric:
  "map_option severity (result_metric (fst scenario_run) immediate ''fireballRadius'')
     = Some ''moderate''"
  using scenario_fireball_bounds
  by (simp add: scenario_run_fst result_metric_def immediate_metrics_def
        get_fireball_severity_def)

lemma scenario_metadata:
  "metadata_num (snd scenario_run) ''impact_velocity_used'' = Some 20"
  "metadata_num (snd scenario_run) ''asteroid_mass_kg''
     = Some (calculate_asteroid_mass scenario_asteroid)"
  "metadata_num (snd scenario_run) ''kinetic_energy_mt''
     = Some (energy_megatons_of scenario_asteroid 20)"
  by (simp_all add: scenario_run_snd metadata_num_def)

text \<open>
  Claim C1, as amended. For the scenario (diameter 1.0 km, rocky, no density override,
  no orbital elements, no velocity override, angle 45 degrees, target density 2700) the
  engine resolves the velocity to exactly 20.0 km/s and computes a mass between
  1.361e12 and 1.362e12 kg, an energy between 65000 and 65100 megatons TNT, and a crater
  diameter between 20 and 21 km; the severities of the four immediate metrics are
  catastrophic (crater), severe (energy), severe (temperature) and moderate (fireball).
\<close>

theorem scenario_values:
  "calculate_impact_velocity scenario_asteroid scenario_parameters = Inr 20
   \<and> metadata_num (snd scenario_run) ''impact_velocity_used'' = Some 20
   \<and> option_between (1361 * 10 ^ 9) (1362 * 10 ^ 9)
        (metadata_num (snd scenario_run) ''asteroid_mass_kg'')
   \<and> option_between 65000 65100 (metadata_num (snd scenario_run) ''kinetic_energy_mt'')
   \<and> option_between 20 21
        (Option.bind (result_metric (fst scenario_run) immediate ''craterDiameter'') metric_number)
   \<and> map_option severity (result_metric (fst scenario_run) immediate ''craterDiameter'')
        = Some ''catastrophic''
   \<and> map_option severity (result_metric (fst scenario_run) immediate ''energy'')
        = Some ''severe''
   \<and> map_option severity (result_metric (fst scenario_run) immediate ''temperature'')
        = Some ''severe''
   \<and> map_option severity (result_metric (fst scenario_run) immediate ''fireballRadius'')
        = Some ''moderate''"
proof -
  have "option_between (1361 * 10 ^ 9) (1362 * 10 ^ 9)
          (metadata_num (snd scenario_run) ''asteroid_mass_kg'')"
    unfolding scenario_metadata option_between_def using scenario_mass_bounds by simp
  moreover have "option_between 65000 65100
          (metadata_num (snd scenario_run) ''kinetic_energy_mt'')"
    unfolding scenario_metadata option_between_def using scenario_energy_bounds by simp
  moreover have "option_between 20 21
        (Option.bind (result_metric (fst scenario_run) immediate ''craterDiameter'') metric_number)"
    unfolding scenario_crater_metric option_between_def using scenario_crater_bounds by simp
  ultimately show ?thesis
    using scenario_velocity scenario_metadata(1) scenario_crater_metric(2)
      scenario_energy_metric scenario_temperature_metric scenario_fireball_metric
    by blast
qed

text \<open>
  Claim C1 as stated fails on the scenario: the energy is not within an order of
  magnitude of 0.0651 megatons, the crater diameter is not below one kilometre, and none
  of the four immediate metrics has the severity minor.
\<close>

theorem scenario_as_stated_fails:
  "\<not> option_between (651 / 100000) (651 / 1000)
        (metadata_num (snd scenario_run) ''kinetic_energy_mt'')
   \<and> \<not> option_between 0 1
        (Option.bind (result_metric (fst scenario_run) immediate ''craterDiameter'') metric_number)
   \<and> map_option severity (result_metric (fst scenario_run) immediate ''craterDiameter'')
        \<noteq> Some ''minor''
   \<and> map_option severity (result_metric (fst scenario_run) immediate ''energy'')
        \<noteq> Some ''minor''
   \<and> map_option severity (result_metric (fst scenario_run) immediate ''temperature'')
        \<noteq> Some ''minor''
   \<and> map_option severity (result_metric (fst scenario_run) immediate ''fireballRadius'')
        \<noteq> Some ''minor''"
proof -
  have "\<not> option_between (651 / 100000) (651 / 1000)
        (metadata_num (snd scenario_run) ''kinetic_energy_mt'')"
    unfolding scenario_metadata option_between_def using scenario_energy_bounds by simp
  moreover have "\<not> option_between 0 1
        (Option.bind (result_metric (fst scenario_run) immediate ''craterDiameter'') metric_number)"
    unfolding scenario_crater_metric option_between_def using scenario_crater_bounds by simp
  ultimately show ?thesis
    by (simp add: scenario_crater_metric(2) scenario_energy_metric
          scenario_temperature_metric scenario_fireball_metric)
qed

subsection \<open>Clamping\<close>

lemma seismic_magnitude_range:
  "0 \<le> calculate_seismic_magnitude e" "calculate_seismic_magnitude e \<le> 10"
  by (simp_all add: calculate_seismic_magnitude_def Let_def)

lemma thermal_effects_snd: "snd (calculate_thermal_effects e v) = peak_temperature_of v"
  by (simp add: calculate_thermal_effects_def Let_def)

text \<open>
  Claim C4. For every energy the seismic magnitude lies between 0 and 10; at energy 0 it
  is 0, the branch that guards the logarithm; and for every energy and velocity the peak
  temperature that \<^verbatim>\<open>_calculate_thermal_effects\<close> returns is at most 100000.
\<close>

theorem clamping:
  "0 \<le> calculate_seismic_magnitude energy_mt
   \<and> calculate_seismic_magnitude energy_mt \<le> 10
   \<and> calculate_seismic_magnitude 0 = 0
   \<and> snd (calculate_thermal_effects energy_mt velocity_kms) \<le> 100000"
proof -
  have "calculate_seismic_magnitude 0 = 0"
    by (simp add: calculate_seismic_magnitude_def)
  moreover have "snd (calculate_thermal_effects energy_mt velocity_kms) \<le> 100000"
    by (simp add: thermal_effects_snd peak_temperature_of_def)
  ultimately show ?thesis
    using seismic_magnitude_range[of energy_mt] by simp
qed

subsection \<open>Severity classification\<close>

lemma severity_le_simps:
  "severity_le ''minor'' ''minor''" "severity_le ''minor'' ''moderate''"
  "severity_le ''minor'' ''severe''" "severity_le ''minor'' ''catastrophic''"
  "severity_le ''moderate'' ''moderate''" "severity_le ''moderate'' ''severe''"
  "severity_le ''moderate'' ''catastrophic''"
  "severity_le ''severe'' ''severe''" "severity_le ''severe'' ''catastrophic''"
  "severity_le ''catastrophic'' ''catastrophic''"
  by (simp_all add: severity_le_def severity_rank_def)

lemma severity_not_le:
  "\<not> severity_le ''moderate'' ''minor''" "\<not> severity_le ''severe'' ''moderate''"
  "\<not> severity_le ''catastrophic'' ''severe''"
  by (simp_all add: severity_le_def severity_rank_def)

lemma crater_severity_mono:
  "x \<le> y \<Longrightarrow> severity_le (get_crater_severity x) (get_crater_severity y)"
  by (simp add: get_crater_severity_def severity_le_simps)

lemma energy_severity_mono:
  "x \<le> y \<Longrightarrow> severity_le (get_energy_severity x) (get_energy_severity y)"
  by (simp add: get_energy_severity_def severity_le_simps)

lemma temperature_severity_mono:
  "x \<le> y \<Longrightarrow> severity_le (get_temperature_severity x) (get_temperature_severity y)"
  by (simp add: get_temperature_severity_def severity_le_simps)

lemma fireball_severity_mono:
  "x \<le> y \<Longrightarrow> severity_le (get_fireball_severity x) (get_fireball_severity y)"
  by (simp add: get_fireball_severity_def severity_le_simps)

lemma shockwave_severity_mono:
  "x \<le> y \<Longrightarrow> severity_le (get_shockwave_severity x) (get_shockwave_severity y)"
  by (simp add: get_shockwave_severity_def severity_le_simps)

lemma debris_severity_mono:
  "x \<le> y \<Longrightarrow> severity_le (get_debris_severity x) (get_debris_severity y)"
  by (simp add: get_debris_severity_def severity_le_simps)

lemma seismic_severity_mono:
  "x \<le> y \<Longrightarrow> severity_le (get_seismic_severity x) (get_seismic_severity y)"
  by (simp add: get_seismic_severity_def severity_le_simps)

lemma dust_severity_mono:
  "x \<le> y \<Longrightarrow> severity_le (get_dust_severity x) (get_dust_severity y)"
  by (simp add: get_dust_severity_def severity_le_simps)

lemma casualty_severity_mono:
  "x \<le> y \<Longrightarrow> severity_le (get_casualty_severity x) (get_casualty_severity y)"
  by (simp add: get_casualty_severity_def severity_le_simps)

lemma infrastructure_severity_mono:
  "x \<le> y \<Longrightarrow> severity_le (get_infrastructure_severity x) (get_infrastructure_severity y)"
  by (simp add: get_infrastructure_severity_def severity_le_simps)

lemma economic_severity_mono:
  "x \<le> y \<Longrightarrow> severity_le (get_economic_severity x) (get_economic_severity y)"
  by (simp add: get_economic_severity_def severity_le_simps)

lemma refugee_severity_mono:
  "x \<le> y \<Longrightarrow> severity_le (get_refugee_severity x) (get_refugee_severity y)"
  by (simp add: get_refugee_severity_def severity_le_simps)

text \<open>
  Claim C6. Each of the twelve severity classifiers is monotone: for all values
  \<open>x \<le> y\<close> the severity of \<open>x\<close> is at most the severity of \<open>y\<close> in the order
  minor, moderate, severe, catastrophic.
\<close>

theorem severity_monotone:
  assumes "x \<le> y"
  shows "severity_le (get_crater_severity x) (get_crater_severity y)
   \<and> severity_le (get_energy_severity x) (get_energy_severity y)
   \<and> severity_le (get_temperature_severity x) (get_temperature_severity y)
   \<and> severity_le (get_fireball_severity x) (get_fireball_severity y)
   \<and> severity_le (get_shockwave_severity x) (get_shockwave_severity y)
   \<and> severity_le (get_debris_severity x) (get_debris_severity y)
   \<and> severity_le (get_seismic_severity x) (get_seismic_severity y)
   \<and> severity_le (get_dust_severity x) (get_dust_severity y)
   \<and> severity_le (get_casualty_severity x) (get_casualty_severity y)
   \<and> severity_le (get_infrastructure_severity x) (get_infrastructure_severity y)
   \<and> severity_le (get_economic_severity x) (get_economic_severity y)
   \<and> severity_le (get_refugee_severity x) (get_refugee_severity y)"
  using assms
  by (intro conjI crater_severity_mono energy_severity_mono temperature_severity_mono
        fireball_severity_mono shockwave_severity_mono debris_severity_mono
        seismic_severity_mono dust_severity_mono casualty_severity_mono
        infrastructure_severity_mono economic_severity_mono refugee_severity_mono)

text \<open>
  The theorem at \<open>x = 15\<close> and \<open>y = 1500\<close>, where the classifiers give different labels
  (the crater severe and then catastrophic, the energy minor and then moderate).
\<close>

theorem severity_monotone_witness:
  "(15 :: real) \<le> 1500
   \<and> get_crater_severity 15 = ''severe'' \<and> get_crater_severity 1500 = ''catastrophic''
   \<and> severity_le (get_crater_severity 15) (get_crater_severity 1500)
   \<and> get_energy_severity 15 = ''minor'' \<and> get_energy_severity 1500 = ''moderate''
   \<and> severity_le (get_energy_severity 15) (get_energy_severity 1500)
   \<and> severity_le (get_temperature_severity 15) (get_temperature_severity 1500)
   \<and> severity_le (get_fireball_severity 15) (get_fireball_severity 1500)
   \<and> severity_le (get_shockwave_severity 15) (get_shockwave_severity 1500)
   \<and> severity_le (get_debris_severity 15) (get_debris_severity 1500)
   \<and> severity_le (get_seismic_severity 15) (get_seismic_severity 1500)
   \<and> severity_le (get_dust_severity 15) (get_dust_severity 1500)
   \<and> severity_le (get_casualty_severity 15) (get_casualty_severity 1500)
   \<and> severity_le (get_infrastructure_severity 15) (get_infrastructure_severity 1500)
   \<and> severity_le (get_economic_severity 15) (get_economic_severity 1500)
   \<and> severity_le (get_refugee_severity 15) (get_refugee_severity 1500)"
proof -
  have h: "(15 :: real) \<le> 1500" by simp
  have "get_crater_severity 15 = ''severe''" "get_crater_severity 1500 = ''catastrophic''"
    "get_energy_severity 15 = ''minor''" "get_energy_severity 1500 = ''moderate''"
    by (simp_all add: get_crater_severity_def get_energy_severity_def)
  then show ?thesis
    using h severity_monotone [OF h] by simp
qed

subsection \<open>Effective density\<close>

lemma density_override:
  assumes "density_kg_m3 a = Some d" "d \<noteq> 0"
  shows "mass_density a = d" "scenario_density a = Inr d"
  using assms by (simp_all add: mass_density_def scenario_density_def or_else_def truthy_def)

lemma density_table:
  assumes "\<not> truthy (density_kg_m3 a)" "map_of MATERIAL_DENSITIES (composition_type a) = Some d"
  shows "mass_density a = d" "scenario_density a = Inr d"
  using assms
  by (auto simp add: mass_density_def scenario_density_def or_else_def truthy_def
        split: option.splits)

lemma density_unrecognized:
  assumes "\<not> truthy (density_kg_m3 a)" "map_of MATERIAL_DENSITIES (composition_type a) = None"
  shows "mass_density a = 2600" "scenario_density a = Inl KeyError"
  using assms
  by (auto simp add: mass_density_def scenario_density_def or_else_def truthy_def
        split: option.splits)

lemma material_densities_lookup:
  "map_of MATERIAL_DENSITIES ''rocky'' = Some 2600"
  "map_of MATERIAL_DENSITIES ''iron'' = Some 7800"
  "map_of MATERIAL_DENSITIES ''icy'' = Some 1000"
  "map_of MATERIAL_DENSITIES ''stony'' = Some 3500"
  "c \<notin> {''rocky'', ''iron'', ''icy'', ''stony''} \<Longrightarrow> map_of MATERIAL_DENSITIES c = None"
  by (simp_all add: MATERIAL_DENSITIES_def)

lemma asteroid_mass_uses_density:
  "calculate_asteroid_mass a =
     (4 / 3) * pi * (or_else (estimated_diameter_km a) 1 * 1000 / 2) ^ 3 * mass_density a"
  by (simp add: calculate_asteroid_mass_def Let_def)

text \<open>
  Claim C2, as amended. The density that the calculation uses is the override whenever
  the override is present and not zero, of either sign. With the override absent or zero
  it is the table value of the composition class for the four classes of the table, in
  the mass and in \<^verbatim>\<open>calculate_impact_scenario\<close> alike; for a class outside the table the
  mass is computed with 2600.
\<close>

theorem effective_density:
  "(\<forall>d. density_kg_m3 a = Some d \<and> d \<noteq> 0 \<longrightarrow> mass_density a = d \<and> scenario_density a = Inr d)
   \<and> (\<not> truthy (density_kg_m3 a) \<and> composition_type a = ''rocky'' \<longrightarrow>
         mass_density a = 2600 \<and> scenario_density a = Inr 2600)
   \<and> (\<not> truthy (density_kg_m3 a) \<and> composition_type a = ''iron'' \<longrightarrow>
         mass_density a = 7800 \<and> scenario_density a = Inr 7800)
   \<and> (\<not> truthy (density_kg_m3 a) \<and> composition_type a = ''icy'' \<longrightarrow>
         mass_density a = 1000 \<and> scenario_density a = Inr 1000)
   \<and> (\<not> truthy (density_kg_m3 a) \<and> composition_type a = ''stony'' \<longrightarrow>
         mass_density a = 3500 \<and> scenario_density a = Inr 3500)
   \<and> (\<not> truthy (density_kg_m3 a)
        \<and> composition_type a \<notin> {''rocky'', ''iron'', ''icy'', ''stony''} \<longrightarrow>
         mass_density a = 2600)
   \<and> calculate_asteroid_mass a =
        (4 / 3) * pi * (or_else (estimated_diameter_km a) 1 * 1000 / 2) ^ 3 * mass_density a"
proof -
  have t: "\<not> truthy (density_kg_m3 a) \<Longrightarrow> composition_type a = c \<Longrightarrow>
      map_of MATERIAL_DENSITIES c = Some d \<Longrightarrow>
      mass_density a = d \<and> scenario_density a = Inr d" for c d
    using density_table[of a d] by simp
  have "\<forall>d. density_kg_m3 a = Some d \<and> d \<noteq> 0 \<longrightarrow>
          mass_density a = d \<and> scenario_density a = Inr d"
    using density_override[of a] by blast
  moreover have "\<not> truthy (density_kg_m3 a) \<and> composition_type a = ''rocky'' \<longrightarrow>
         mass_density a = 2600 \<and> scenario_density a = Inr 2600"
    using t[OF _ _ material_densities_lookup(1)] by blast
  moreover have "\<not> truthy (density_kg_m3 a) \<and> composition_type a = ''iron'' \<longrightarrow>
         mass_density a = 7800 \<and> scenario_density a = Inr 7800"
    using t[OF _ _ material_densities_lookup(2)] by blast
  moreover have "\<not> truthy (density_kg_m3 a) \<and> composition_type a = ''icy'' \<longrightarrow>
         mass_density a = 1000 \<and> scenario_density a = Inr 1000"
    using t[OF _ _ material_densities_lookup(3)] by blast
  moreover have "\<not> truthy (density_kg_m3 a) \<and> composition_type a = ''stony'' \<longrightarrow>
         mass_density a = 3500 \<and> scenario_density a = Inr 3500"
    using t[OF _ _ material_densities_lookup(4)] by blast
  moreover have "\<not> truthy (density_kg_m3 a)
        \<and> composition_type a \<notin> {''rocky'', ''iron'', ''icy'', ''stony''} \<longrightarrow>
         mass_density a = 2600"
  proof (intro impI)
    assume h: "\<not> truthy (density_kg_m3 a)
        \<and> composition_type a \<notin> {''rocky'', ''iron'', ''icy'', ''stony''}"
    then have "map_of MATERIAL_DENSITIES (composition_type a) = None"
      by (intro material_densities_lookup(5)) simp
    with h show "mass_density a = 2600"
      by (intro density_unrecognized(1)) simp_all
  qed
  ultimately show ?thesis
    using asteroid_mass_uses_density[of a] by blast
qed

text \<open>
  The theorem at four asteroids: the scenario's (rocky, no override), one with the
  override 5000, one with the override 0 and the class iron, and one of a class that the
  table does not have.
\<close>

theorem effective_density_witness:
  "mass_density scenario_asteroid = 2600 \<and> scenario_density scenario_asteroid = Inr 2600
   \<and> mass_density (scenario_asteroid\<lparr>density_kg_m3 := Some 5000\<rparr>) = 5000
   \<and> scenario_density (scenario_asteroid\<lparr>density_kg_m3 := Some 5000\<rparr>) = Inr 5000
   \<and> mass_density (scenario_asteroid\<lparr>density_kg_m3 := Some 0, composition_type := ''iron''\<rparr>)
        = 7800
   \<and> scenario_density (scenario_asteroid\<lparr>density_kg_m3 := Some 0, composition_type := ''iron''\<rparr>)
        = Inr 7800
   \<and> mass_density (scenario_asteroid\<lparr>composition_type := ''carbonaceous''\<rparr>) = 2600"
  using effective_density [of scenario_asteroid]
    effective_density [of "scenario_asteroid\<lparr>density_kg_m3 := Some 5000\<rparr>"]
    effective_density [of "scenario_asteroid\<lparr>density_kg_m3 := Some 0, composition_type := ''iron''\<rparr>"]
    effective_density [of "scenario_asteroid\<lparr>composition_type := ''carbonaceous''\<rparr>"]
  by (simp add: scenario_asteroid_def truthy_def)

text \<open>
  Claim C2 as stated fails on a negative override: for the scenario's rocky asteroid with
  the override \<open>-1\<close>, which is not above zero, the density used is \<open>-1\<close> and not the
  table's 2600.
\<close>

theorem negative_density_override_used:
  "scenario_density (scenario_asteroid\<lparr>density_kg_m3 := Some (- 1)\<rparr>) = Inr (- 1)
   \<and> scenario_density (scenario_asteroid\<lparr>density_kg_m3 := Some (- 1)\<rparr>) \<noteq> Inr 2600
   \<and> mass_density (scenario_asteroid\<lparr>density_kg_m3 := Some (- 1)\<rparr>) = - 1
   \<and> mass_density (scenario_asteroid\<lparr>density_kg_m3 := Some (- 1)\<rparr>) \<noteq> 2600"
  by (simp add: scenario_density_def mass_density_def scenario_asteroid_def truthy_def
        or_else_def)

text \<open>
  With no override and a class outside the table, \<^verbatim>\<open>_calculate_asteroid_mass\<close> falls
  back to 2600, but the subscript in \<^verbatim>\<open>calculate_impact_scenario\<close> raises
  \<^verbatim>\<open>KeyError\<close>: the call returns no result and leaves the engine as it was.
\<close>

lemma unrecognized_composition_raises:
  "calculate_impact_scenario s (scenario_asteroid\<lparr>composition_type := ''carbonaceous''\<rparr>)
     scenario_parameters = (Inl KeyError, s)"
  by (simp add: impact_scenario_eq calculate_impact_velocity_def scenario_density_def
        scenario_asteroid_def scenario_parameters_def truthy_def MATERIAL_DENSITIES_def)

subsection \<open>Velocity resolution\<close>

lemma velocity_override:
  assumes "impact_velocity_kms p = Some v" "v \<noteq> 0"
  shows "calculate_impact_velocity a p = Inr v"
  using assms by (simp add: calculate_impact_velocity_def truthy_def or_else_def)

lemma orbital_velocity_positive_axis:
  assumes "semi_major_axis_au oe = Some ax" "0 < ax"
  shows "calculate_orbital_velocity oe = Inr (sqrt (1327 * 10 ^ 17 / (ax * (1496 * 10 ^ 8))) / 1000)"
  using assms
  by (simp add: calculate_orbital_velocity_def truthy_def or_else_def py_div_def py_sqrt_def
        bind_err_def GM_sun_def AU_def Let_def)

lemma velocity_orbital:
  assumes "\<not> truthy (impact_velocity_kms p)" "axis_of a = Some ax" "0 < ax"
  shows "calculate_impact_velocity a p =
           Inr (sqrt ((sqrt (1327 * 10 ^ 17 / (ax * (1496 * 10 ^ 8))) / 1000) ^ 2 + (112 / 10) ^ 2))"
proof -
  from assms(2) obtain oe where oe: "orbital_elements a = Some oe" "semi_major_axis_au oe = Some ax"
    by (auto simp add: axis_of_def split: option.splits)
  have "\<not> (sqrt (1327 * 10 ^ 17 / (ax * (1496 * 10 ^ 8))) / 1000) ^ 2 + (112 / 10) ^ 2 < (0 :: real)"
    by (simp add: not_less add_nonneg_nonneg)
  then show ?thesis
    using assms(1,3) oe
    by (simp add: calculate_impact_velocity_def orbital_velocity_positive_axis truthy_def
          bind_err_def py_sqrt_def EARTH_ESCAPE_VELOCITY_def)
qed

lemma velocity_fallback:
  assumes "\<not> truthy (impact_velocity_kms p)" "\<not> truthy (axis_of a)"
  shows "calculate_impact_velocity a p = Inr 20"
  using assms
  by (simp add: calculate_impact_velocity_def axis_of_def split: option.splits)

lemma velocity_positive:
  assumes "option_ge 0 (impact_velocity_kms p)" "option_ge 0 (axis_of a)"
  shows "\<exists>v. calculate_impact_velocity a p = Inr v \<and> 0 < v"
proof (cases "truthy (impact_velocity_kms p)")
  case True
  then obtain v where v: "impact_velocity_kms p = Some v" "v \<noteq> 0"
    by (auto simp add: truthy_def split: option.splits)
  with assms(1) have "0 < v" by (simp add: option_ge_def)
  then show ?thesis using velocity_override[OF v] by simp
next
  case False
  show ?thesis
  proof (cases "truthy (axis_of a)")
    case True
    then obtain ax where ax: "axis_of a = Some ax" "ax \<noteq> 0"
      by (auto simp add: truthy_def split: option.splits)
    with assms(2) have pos: "0 < ax" by (simp add: option_ge_def)
    have "0 < (sqrt (1327 * 10 ^ 17 / (ax * (1496 * 10 ^ 8))) / 1000) ^ 2 + (112 / 10 :: real) ^ 2"
      by (intro add_nonneg_pos) simp_all
    then have "0 < sqrt ((sqrt (1327 * 10 ^ 17 / (ax * (1496 * 10 ^ 8))) / 1000) ^ 2 + (112 / 10) ^ 2)"
      by (simp only: real_sqrt_gt_0_iff)
    then show ?thesis
      using velocity_orbital[OF False ax(1) pos] by simp
  next
    case False
    then show ?thesis
      using velocity_fallback[OF \<open>\<not> truthy (impact_velocity_kms p)\<close> False] by simp
  qed
qed

text \<open>
  Claim C3, as amended. An override velocity that is present and not zero, of either
  sign, is returned unchanged. With the override absent or zero, a semi-major axis that
  is present and above zero gives \<open>sqrt (v_orbital\<^sup>2 + 11.2\<^sup>2)\<close> with
  \<open>v_orbital = sqrt (GM_sun / a_meters) / 1000\<close>, \<open>GM_sun = 1.327e20\<close> and
  \<open>a_meters\<close> the axis times \<open>1.496e11\<close>; an axis that is absent or zero (or an
  asteroid without orbital elements) gives exactly 20.0. The resolved velocity is above
  zero whenever neither the override nor the axis is negative.
\<close>

theorem velocity_resolution:
  "(\<forall>v. impact_velocity_kms p = Some v \<and> v \<noteq> 0 \<longrightarrow> calculate_impact_velocity a p = Inr v)
   \<and> (\<forall>ax. \<not> truthy (impact_velocity_kms p) \<and> axis_of a = Some ax \<and> 0 < ax \<longrightarrow>
         calculate_impact_velocity a p =
           Inr (sqrt ((sqrt (1327 * 10 ^ 17 / (ax * (1496 * 10 ^ 8))) / 1000) ^ 2
                      + (112 / 10) ^ 2)))
   \<and> (\<not> truthy (impact_velocity_kms p) \<and> \<not> truthy (axis_of a) \<longrightarrow>
         calculate_impact_velocity a p = Inr 20)
   \<and> (option_ge 0 (impact_velocity_kms p) \<and> option_ge 0 (axis_of a) \<longrightarrow>
         (\<exists>v. calculate_impact_velocity a p = Inr v \<and> 0 < v))"
proof (intro conjI allI impI)
  fix v assume "impact_velocity_kms p = Some v \<and> v \<noteq> 0"
  then show "calculate_impact_velocity a p = Inr v"
    using velocity_override by simp
next
  fix ax assume "\<not> truthy (impact_velocity_kms p) \<and> axis_of a = Some ax \<and> 0 < ax"
  then show "calculate_impact_velocity a p =
           Inr (sqrt ((sqrt (1327 * 10 ^ 17 / (ax * (1496 * 10 ^ 8))) / 1000) ^ 2
                      + (112 / 10) ^ 2))"
    using velocity_orbital by simp
next
  assume "\<not> truthy (impact_velocity_kms p) \<and> \<not> truthy (axis_of a)"
  then show "calculate_impact_velocity a p = Inr 20"
    using velocity_fallback by simp
next
  assume "option_ge 0 (impact_velocity_kms p) \<and> option_ge 0 (axis_of a)"
  then show "\<exists>v. calculate_impact_velocity a p = Inr v \<and> 0 < v"
    using velocity_positive by simp
qed

text \<open>
  The theorem at the scenario with the override 30, at the scenario itself (no override,
  no orbital elements), and at the scenario's asteroid on an orbit of semi-major axis
  1 AU.
\<close>

theorem velocity_resolution_witness:
  "calculate_impact_velocity scenario_asteroid
       (scenario_parameters\<lparr>impact_velocity_kms := Some 30\<rparr>) = Inr 30
   \<and> calculate_impact_velocity scenario_asteroid scenario_parameters = Inr 20
   \<and> calculate_impact_velocity
        (scenario_asteroid\<lparr>orbital_elements :=
           Some \<lparr>semi_major_axis_au = Some 1, eccentricity = None\<rparr>\<rparr>) scenario_parameters
      = Inr (sqrt ((sqrt (1327 * 10 ^ 17 / (1 * (1496 * 10 ^ 8))) / 1000) ^ 2 + (112 / 10) ^ 2))
   \<and> (\<exists>v. calculate_impact_velocity
        (scenario_asteroid\<lparr>orbital_elements :=
           Some \<lparr>semi_major_axis_au = Some 1, eccentricity = None\<rparr>\<rparr>) scenario_parameters
          = Inr v \<and> 0 < v)"
proof -
  let ?p = "scenario_parameters\<lparr>impact_velocity_kms := Some 30\<rparr>"
  let ?a = "scenario_asteroid\<lparr>orbital_elements :=
              Some \<lparr>semi_major_axis_au = Some 1, eccentricity = None\<rparr>\<rparr>"
  have p: "impact_velocity_kms ?p = Some 30" "\<not> truthy (impact_velocity_kms scenario_parameters)"
    "option_ge 0 (impact_velocity_kms scenario_parameters)"
    by (simp_all add: scenario_parameters_def truthy_def option_ge_def)
  have a: "axis_of ?a = Some 1" "\<not> truthy (axis_of scenario_asteroid)" "option_ge 0 (axis_of ?a)"
    by (simp_all add: scenario_asteroid_def axis_of_def truthy_def option_ge_def)
  have "calculate_impact_velocity scenario_asteroid ?p = Inr 30"
    using velocity_resolution [of ?p scenario_asteroid] p(1) by simp
  moreover have "calculate_impact_velocity scenario_asteroid scenario_parameters = Inr 20"
    using velocity_resolution [of scenario_parameters scenario_asteroid] p(2) a(2) by blast
  moreover have "calculate_impact_velocity ?a scenario_parameters
      = Inr (sqrt ((sqrt (1327 * 10 ^ 17 / (1 * (1496 * 10 ^ 8))) / 1000) ^ 2 + (112 / 10) ^ 2))"
    using velocity_resolution [of scenario_parameters ?a] p(2) a(1) by force
  moreover have "\<exists>v. calculate_impact_velocity ?a scenario_parameters = Inr v \<and> 0 < v"
    using velocity_resolution [of scenario_parameters ?a] p(3) a(3) by blast
  ultimately show ?thesis by blast
qed

text \<open>
  Claim C3 as stated fails on a negative override: with the override \<open>-5\<close>, which is
  not above zero, and no orbital elements the claim gives 20.0, a positive value; the
  engine returns \<open>-5\<close>.
\<close>

theorem negative_velocity_override_returned:
  "calculate_impact_velocity scenario_asteroid
       (scenario_parameters\<lparr>impact_velocity_kms := Some (- 5)\<rparr>) = Inr (- 5)
   \<and> calculate_impact_velocity scenario_asteroid
       (scenario_parameters\<lparr>impact_velocity_kms := Some (- 5)\<rparr>) \<noteq> Inr 20"
  by (simp add: calculate_impact_velocity_def scenario_parameters_def truthy_def or_else_def)

text \<open>
  A negative semi-major axis is true as well, and the square root of the negative
  quotient raises \<^verbatim>\<open>ValueError\<close>.
\<close>

lemma negative_axis_raises:
  "calculate_impact_velocity
     (scenario_asteroid\<lparr>orbital_elements :=
        Some \<lparr>semi_major_axis_au = Some (- 1), eccentricity = None\<rparr>\<rparr>) scenario_parameters
   = Inl ValueError"
  by (simp add: calculate_impact_velocity_def calculate_orbital_velocity_def
        scenario_asteroid_def scenario_parameters_def truthy_def or_else_def py_div_def
        py_sqrt_def bind_err_def GM_sun_def AU_def Let_def)

subsection \<open>Angle sensitivity\<close>

lemma sin_radians_90: "sin (radians 90) = 1"
proof -
  have r: "radians 90 = pi / 2" by (simp add: radians_def)
  show ?thesis unfolding r by (rule sin_pi_half)
qed

lemma sin_radians_15_bounds:
  "2587 / 10000 < sin (radians 15)" "sin (radians 15) < 2589 / 10000"
proof -
  have r: "radians 15 = pi / 12" by (simp add: radians_def)
  let ?lo = "26175 / 100000 :: real"
  let ?hi = "26184 / 100000 :: real"
  have lo: "?lo < pi / 12" using pi_gt_3141 by simp
  have hi: "pi / 12 < ?hi" using pi_lt_3142 by simp
  have range: "- (pi / 2) \<le> ?lo" "?lo \<le> pi / 2" "- (pi / 2) \<le> pi / 12" "pi / 12 \<le> pi / 2"
    "- (pi / 2) \<le> ?hi" "?hi \<le> pi / 2"
    using pi_ge_two by simp_all
  have "2587 / 10000 < (?lo - ?lo^3/6 + ?lo^5/120) - ?lo^7 / 5040"
    by (simp add: power_divide)
  also have "\<dots> \<le> sin ?lo" using sin_poly_bound[of ?lo] by linarith
  also have "\<dots> < sin (pi / 12)"
    using sin_mono_less_eq[of ?lo "pi / 12"] range lo by blast
  finally show "2587 / 10000 < sin (radians 15)" by (simp only: r)
  have "sin (pi / 12) < sin ?hi"
    using sin_mono_less_eq[of "pi / 12" ?hi] range hi by blast
  also have "\<dots> \<le> (?hi - ?hi^3/6 + ?hi^5/120) + ?hi^7 / 5040"
    using sin_poly_bound[of ?hi] by linarith
  also have "\<dots> < 2589 / 10000" by (simp add: power_divide)
  finally show "sin (radians 15) < 2589 / 10000" by (simp only: r)
qed

lemma sin_radians_15_range: "0 < sin (radians 15)" "sin (radians 15) < 1"
  using sin_radians_15_bounds by simp_all

lemma shockwave_angle:
  assumes "0 < E"
  shows "shockwave_float E 15 < shockwave_float E 90"
proof -
  have "0 < 15 * E powr (33 / 100)" using assms by simp
  then have "15 * E powr (33 / 100) * sin (radians 15) < 15 * E powr (33 / 100) * 1"
    using sin_radians_15_range(2) by (intro mult_strict_left_mono)
  then show ?thesis by (simp add: shockwave_float_def sin_radians_90)
qed

lemma debris_angle:
  assumes "0 < E"
  shows "debris_float E 15 < debris_float E 90"
proof -
  have "0 < 50 * E powr (3 / 10)" using assms by simp
  then have "50 * E powr (3 / 10) * sin (radians 15) < 50 * E powr (3 / 10) * 1"
    using sin_radians_15_range(2) by (intro mult_strict_left_mono)
  then show ?thesis by (simp add: debris_float_def sin_radians_90)
qed

lemma crater_base_angle:
  assumes "0 < E" "0 < \<rho>t"
  shows "0 < crater_base E \<rho>t 15" "crater_base E \<rho>t 15 < crater_base E \<rho>t 90"
proof -
  have k: "0 < E * (4184 * 10 ^ 12) / \<rho>t" using assms by simp
  have "E * (4184 * 10 ^ 12) / \<rho>t * sin (radians 15) < E * (4184 * 10 ^ 12) / \<rho>t * 1"
    using k sin_radians_15_range(2) by (intro mult_strict_left_mono)
  then show "crater_base E \<rho>t 15 < crater_base E \<rho>t 90"
    by (simp add: crater_base_def sin_radians_90)
  have "0 < E * (4184 * 10 ^ 12) / \<rho>t * sin (radians 15)"
    using k sin_radians_15_range(1) by (intro mult_pos_pos)
  then show "0 < crater_base E \<rho>t 15" by (simp add: crater_base_def)
qed

lemma crater_angle:
  assumes "0 < E" "0 < \<rho>t"
  shows "crater_float E \<rho>t 15 < crater_float E \<rho>t 90"
proof -
  have "crater_base E \<rho>t 15 powr (25 / 100) < crater_base E \<rho>t 90 powr (25 / 100)"
    using crater_base_angle[OF assms] by (intro powr_less_mono2) simp_all
  then show ?thesis by (simp add: crater_float_def)
qed

lemma crater_float_needs_positive_density:
  assumes "0 < E" "calculate_crater_diameter E d v \<rho> \<rho>t 15 = Inr (PyFloat c)"
  shows "0 < \<rho>t"
proof (rule ccontr)
  assume "\<not> 0 < \<rho>t"
  moreover have "\<rho>t \<noteq> 0" using assms(2) by (auto simp add: crater_diameter_eq)
  ultimately have neg: "\<rho>t < 0" by simp
  have "0 < E * (4184 * 10 ^ 12) * sin (radians 15)"
    using assms(1) sin_radians_15_range(1) by simp
  then have "crater_base E \<rho>t 15 < 0"
    unfolding crater_base_def using neg by (rule divide_pos_neg)
  then show False using assms(2) \<open>\<rho>t \<noteq> 0\<close> by (simp add: crater_diameter_eq)
qed

lemma crater_diameter_positive_density:
  assumes "0 < E" "0 < \<rho>t"
  shows "calculate_crater_diameter E d v \<rho> \<rho>t 15 = Inr (PyFloat (crater_float E \<rho>t 15))"
    "calculate_crater_diameter E d v \<rho> \<rho>t 90 = Inr (PyFloat (crater_float E \<rho>t 90))"
  using crater_base_angle[OF assms] assms(2) by (simp_all add: crater_diameter_eq)

text \<open>
  Bounds on the intermediate results of the three scaling laws, for an energy and a
  target density between \<open>1 / M\<close> and \<open>M\<close> and an angle factor between 0.1 and 1:
  each lies between \<open>1 / M\<^sup>3\<close> and \<open>M\<^sup>3\<close>.
\<close>

lemma powr_between:
  fixes x p :: real
  assumes "0 < x" "0 \<le> p" "p \<le> 1"
  shows "min x 1 \<le> x powr p" "x powr p \<le> max x 1"
proof -
  show "min x 1 \<le> x powr p"
  proof (cases "1 \<le> x")
    case True
    then have "1 \<le> x powr p" using assms(2) by (rule ge_one_powr_ge_zero)
    then show ?thesis using True by simp
  next
    case False
    then have "x powr 1 \<le> x powr p"
      using assms by (intro powr_mono') simp_all
    then show ?thesis using assms(1) False by simp
  qed
  show "x powr p \<le> max x 1"
  proof (cases "1 \<le> x")
    case True
    then have "x powr p \<le> x powr 1" using assms(3) by (intro powr_mono) simp_all
    then show ?thesis using assms(1) True by simp
  next
    case False
    then have "x powr p \<le> 1" using assms by (intro powr_le1) simp_all
    then show ?thesis by simp
  qed
qed

lemma cube_bounds:
  fixes M :: real
  assumes "10 ^ 17 \<le> M"
  shows "1 \<le> M" "0 < M" "1 / M ^ 3 \<le> 1 / (10 * M ^ 2)" "10 ^ 17 * M ^ 2 \<le> M ^ 3"
    "1 / (10 * M ^ 2) \<le> 1 / (10 * M)" "1 / (10 * M) \<le> 1 / M"
    "10 ^ 16 * M \<le> 10 ^ 17 * M ^ 2"
proof -
  have "(1 :: real) \<le> 10 ^ 17" by simp
  then show one: "1 \<le> M" using assms by (rule order_trans)
  then show pos: "0 < M" by simp
  have ten: "10 \<le> M"
  proof -
    have "(10 :: real) \<le> 10 ^ 17" by simp
    then show ?thesis using assms by (rule order_trans)
  qed
  have sq: "M \<le> M ^ 2" using one by (simp add: power2_eq_square)
  have "10 * M ^ 2 \<le> M * M ^ 2" using ten by (intro mult_right_mono) simp_all
  then have "10 * M ^ 2 \<le> M ^ 3" by (simp add: power3_eq_cube power2_eq_square)
  then show "1 / M ^ 3 \<le> 1 / (10 * M ^ 2)" using pos by (intro divide_left_mono) simp_all
  have "10 ^ 17 * M ^ 2 \<le> M * M ^ 2" using assms by (intro mult_right_mono) simp_all
  then show "10 ^ 17 * M ^ 2 \<le> M ^ 3" by (simp add: power3_eq_cube power2_eq_square)
  show "1 / (10 * M ^ 2) \<le> 1 / (10 * M)" using sq pos by (intro divide_left_mono) simp_all
  show "1 / (10 * M) \<le> 1 / M" using pos by (intro divide_left_mono) simp_all
  have "10 ^ 16 * M \<le> 10 ^ 17 * M ^ 2" using sq pos by (intro mult_mono) simp_all
  then show "10 ^ 16 * M \<le> 10 ^ 17 * M ^ 2" .
qed

lemma prod_bounds:
  fixes a b :: real
  assumes "la \<le> a" "a \<le> ua" "lb \<le> b" "b \<le> ub" "0 \<le> la" "0 \<le> lb"
  shows "la * lb \<le> a * b" "a * b \<le> ua * ub"
proof -
  have "0 \<le> a" "0 \<le> b" "0 \<le> ua" using assms by linarith+
  then show "la * lb \<le> a * b" "a * b \<le> ua * ub"
    using assms by (auto intro: mult_mono)
qed

lemma quot_bounds:
  fixes a b :: real
  assumes "la \<le> a" "a \<le> ua" "lb \<le> b" "b \<le> ub" "0 \<le> la" "0 < lb"
  shows "la / ub \<le> a / b" "a / b \<le> ua / lb"
proof -
  have "0 \<le> a" "0 < b" "0 < ub" using assms by linarith+
  then show "la / ub \<le> a / b" "a / b \<le> ua / lb"
    using assms by (auto intro: frac_le)
qed

lemma crater_chain_range:
  fixes E \<rho>t af M :: real
  assumes M: "10 ^ 17 \<le> M"
    and E: "1 / M \<le> E" "E \<le> M" and \<rho>: "1 / M \<le> \<rho>t" "\<rho>t \<le> M"
    and af: "1 / 10 \<le> af" "af \<le> 1"
  shows "1 / M ^ 3 \<le> E * (4184 * 10 ^ 12) \<and> E * (4184 * 10 ^ 12) \<le> M ^ 3"
    "1 / M ^ 3 \<le> E * (4184 * 10 ^ 12) * af \<and> E * (4184 * 10 ^ 12) * af \<le> M ^ 3"
    "1 / M ^ 3 \<le> E * (4184 * 10 ^ 12) * af / \<rho>t
       \<and> E * (4184 * 10 ^ 12) * af / \<rho>t \<le> M ^ 3"
    "1 / M ^ 3 \<le> (125 / 100) * (E * (4184 * 10 ^ 12) * af / \<rho>t) powr (25 / 100)
       \<and> (125 / 100) * (E * (4184 * 10 ^ 12) * af / \<rho>t) powr (25 / 100) \<le> M ^ 3"
proof -
  let ?c = "4184 * 10 ^ 12 :: real"
  let ?x1 = "E * ?c"
  let ?x2 = "?x1 * af"
  let ?x3 = "?x2 / \<rho>t"
  note cb = cube_bounds[OF M]
  have Mi: "0 < 1 / M" using cb(2) by simp
  have c: "1 \<le> ?c" "?c \<le> 10 ^ 16" by simp_all
  have lo: "1 / M ^ 3 \<le> 1 / (10 * M ^ 2)" "1 / M ^ 3 \<le> 1 / (10 * M)" "1 / M ^ 3 \<le> 1 / M"
    using cb(3,5,6) by linarith+
  have t: "0 \<le> 10 ^ 16 * M ^ 2" by simp
  have "2 * (10 ^ 16 * M ^ 2) \<le> 10 ^ 17 * M ^ 2" by simp
  then have hi2: "2 * (10 ^ 16 * M ^ 2) \<le> M ^ 3" using cb(4) by linarith
  have hi: "10 ^ 16 * M \<le> M ^ 3" "10 ^ 16 * M ^ 2 \<le> M ^ 3"
    using cb(4,7) hi2 t by linarith+
  have x1: "1 / M \<le> ?x1" "?x1 \<le> 10 ^ 16 * M"
    using prod_bounds[OF E c] Mi by (simp_all add: mult.commute)
  have x2: "1 / (10 * M) \<le> ?x2" "?x2 \<le> 10 ^ 16 * M"
    using prod_bounds[OF x1 af] Mi by (simp_all add: mult.commute)
  have x2lo: "0 \<le> 1 / (10 * M)" using cb(2) by simp
  have x3: "1 / (10 * M ^ 2) \<le> ?x3" "?x3 \<le> 10 ^ 16 * M ^ 2"
    using quot_bounds[OF x2 \<rho> x2lo Mi] by (simp_all add: power2_eq_square)
  have "0 < 1 / (10 * M ^ 2)" using cb(2) by simp
  then have x3pos: "0 < ?x3" using x3(1) by linarith
  have pw: "min ?x3 1 \<le> ?x3 powr (25 / 100)" "?x3 powr (25 / 100) \<le> max ?x3 1"
    using powr_between[OF x3pos, of "25 / 100"] by simp_all
  have M2: "1 \<le> M ^ 2" using cb(1) by (rule one_le_power)
  then have "1 \<le> 10 * M ^ 2" by linarith
  then have "1 / (10 * M ^ 2) \<le> 1 / 1" using cb(2) by (intro divide_left_mono) simp_all
  then have small: "1 / (10 * M ^ 2) \<le> 1" by simp
  have "M ^ 2 \<le> 10 ^ 16 * M ^ 2" by simp
  then have big: "1 \<le> 10 ^ 16 * M ^ 2" using M2 by linarith
  have x4: "1 / (10 * M ^ 2) \<le> ?x3 powr (25 / 100)" "?x3 powr (25 / 100) \<le> 10 ^ 16 * M ^ 2"
    using pw x3 small big by linarith+
  show "1 / M ^ 3 \<le> ?x1 \<and> ?x1 \<le> M ^ 3" using x1 lo hi by linarith
  show "1 / M ^ 3 \<le> ?x2 \<and> ?x2 \<le> M ^ 3" using x2 lo hi by linarith
  show "1 / M ^ 3 \<le> ?x3 \<and> ?x3 \<le> M ^ 3" using x3 lo hi by linarith
  show "1 / M ^ 3 \<le> (125 / 100) * ?x3 powr (25 / 100)
       \<and> (125 / 100) * ?x3 powr (25 / 100) \<le> M ^ 3"
    using x4 lo t hi2 \<open>0 < 1 / (10 * M ^ 2)\<close> by linarith
qed

lemma power_chain_range:
  fixes E af k p M :: real
  assumes M: "10 ^ 17 \<le> M"
    and E: "1 / M \<le> E" "E \<le> M" and af: "1 / 10 \<le> af" "af \<le> 1"
    and k: "1 \<le> k" "k \<le> 100" and p: "0 \<le> p" "p \<le> 1"
  shows "1 / M ^ 3 \<le> E powr p \<and> E powr p \<le> M ^ 3"
    "1 / M ^ 3 \<le> k * E powr p \<and> k * E powr p \<le> M ^ 3"
    "1 / M ^ 3 \<le> k * E powr p * af \<and> k * E powr p * af \<le> M ^ 3"
proof -
  note cb = cube_bounds[OF M]
  have Mi: "0 < 1 / M" using cb(2) by simp
  have lo: "1 / M ^ 3 \<le> 1 / (10 * M)" "1 / M ^ 3 \<le> 1 / M"
    using cb(3,5,6) by linarith+
  have "10 ^ 16 * M \<le> M ^ 3" using cb(4,7) by linarith
  moreover have "100 * M \<le> 10 ^ 16 * M" using cb(2) by simp
  ultimately have hi: "100 * M \<le> M ^ 3" "M \<le> M ^ 3" using cb(2) by linarith+
  have Epos: "0 < E" using Mi E(1) by linarith
  have pw: "min E 1 \<le> E powr p" "E powr p \<le> max E 1"
    using powr_between[OF Epos p] by simp_all
  have "1 / M \<le> 1 / 1" using cb(1) by (intro divide_left_mono) simp_all
  then have "1 / M \<le> 1" by simp
  then have y1: "1 / M \<le> E powr p" "E powr p \<le> M"
    using pw E cb(1) by linarith+
  have one: "(0 :: real) \<le> 1" by simp
  have Mi0: "0 \<le> 1 / M" using Mi by simp
  have y2: "1 / M \<le> k * E powr p" "k * E powr p \<le> 100 * M"
    using prod_bounds[OF k y1 one Mi0] by simp_all
  have tenth: "(0 :: real) \<le> 1 / 10" by simp
  have y3: "1 / (10 * M) \<le> k * E powr p * af" "k * E powr p * af \<le> 100 * M"
    using prod_bounds[OF y2 af Mi0 tenth] by (simp_all add: mult.commute)
  show "1 / M ^ 3 \<le> E powr p \<and> E powr p \<le> M ^ 3" using y1 lo hi by linarith
  show "1 / M ^ 3 \<le> k * E powr p \<and> k * E powr p \<le> M ^ 3" using y2 lo hi by linarith
  show "1 / M ^ 3 \<le> k * E powr p * af \<and> k * E powr p * af \<le> M ^ 3"
    using y3 lo hi by linarith
qed

lemma angle_factor_range:
  "1 / 10 \<le> sin (radians 15)" "sin (radians 15) \<le> 1"
  "1 / 10 \<le> sin (radians 90)" "sin (radians 90) \<le> 1"
  using sin_radians_15_bounds by (simp_all add: sin_radians_90)

lemma ten_powers:
  "(10 :: real) ^ 17 \<le> 10 ^ 100" "((10 :: real) ^ 100) ^ 3 = 10 ^ 300"
proof -
  show "(10 :: real) ^ 17 \<le> 10 ^ 100" by (rule power_increasing) simp_all
  have "(100 :: nat) * 3 = 300" by simp
  then show "((10 :: real) ^ 100) ^ 3 = 10 ^ 300" by (simp only: power_mult[symmetric])
qed

text \<open>
  Claim C5, as amended. For every positive energy within the range of the doubles, the
  shockwave radius and the debris field radius at 15 degrees are strictly smaller than
  at 90 degrees. So is the crater diameter, for every energy between 1e-100 and 1e100
  megatons and every target density between 1e-100 and 1e100, where it is a float at both
  angles. The angle factor \<open>sin (radians angle_deg)\<close> is 1 at 90 degrees and between
  0.2587 and 0.2589 at 15.
\<close>

theorem angle_sensitivity:
  assumes "0 < energy_mt" "energy_mt < 2 ^ 1024"
  shows "(\<exists>s15 s90. calculate_shockwave_radius energy_mt 15 = PyFloat s15
            \<and> calculate_shockwave_radius energy_mt 90 = PyFloat s90 \<and> s15 < s90)
   \<and> (\<exists>d15 d90. calculate_debris_field energy_mt 15 = PyFloat d15
            \<and> calculate_debris_field energy_mt 90 = PyFloat d90 \<and> d15 < d90)
   \<and> (1 / 10 ^ 100 \<le> energy_mt \<and> energy_mt \<le> 10 ^ 100
        \<and> 1 / 10 ^ 100 \<le> target_density \<and> target_density \<le> 10 ^ 100 \<longrightarrow>
        (\<exists>c15 c90.
           calculate_crater_diameter energy_mt diameter_m velocity_kms density target_density 15
             = Inr (PyFloat c15)
           \<and> calculate_crater_diameter energy_mt diameter_m velocity_kms density target_density 90
             = Inr (PyFloat c90)
           \<and> c15 < c90))
   \<and> sin (radians 90) = 1
   \<and> 2587 / 10000 < sin (radians 15) \<and> sin (radians 15) < 2589 / 10000"
proof (intro conjI impI)
  show "\<exists>s15 s90. calculate_shockwave_radius energy_mt 15 = PyFloat s15
            \<and> calculate_shockwave_radius energy_mt 90 = PyFloat s90 \<and> s15 < s90"
    using assms(1) shockwave_angle[OF assms(1)] by (simp add: shockwave_radius_eq)
  show "\<exists>d15 d90. calculate_debris_field energy_mt 15 = PyFloat d15
            \<and> calculate_debris_field energy_mt 90 = PyFloat d90 \<and> d15 < d90"
    using assms(1) debris_angle[OF assms(1)] by (simp add: debris_field_eq)
next
  assume b: "1 / 10 ^ 100 \<le> energy_mt \<and> energy_mt \<le> 10 ^ 100
        \<and> 1 / 10 ^ 100 \<le> target_density \<and> target_density \<le> 10 ^ 100"
  have "(0 :: real) < 1 / 10 ^ 100" by simp
  with b have pos: "0 < target_density" by linarith
  show "\<exists>c15 c90.
           calculate_crater_diameter energy_mt diameter_m velocity_kms density target_density 15
             = Inr (PyFloat c15)
           \<and> calculate_crater_diameter energy_mt diameter_m velocity_kms density target_density 90
             = Inr (PyFloat c90)
           \<and> c15 < c90"
    using crater_diameter_positive_density[OF assms(1) pos] crater_angle[OF assms(1) pos]
    by simp
qed (rule sin_radians_90 sin_radians_15_bounds)+

text \<open>The theorem at the energy 1 megaton and the target density 2700.\<close>

theorem angle_sensitivity_witness:
  "(0 :: real) < 1 \<and> (1 :: real) < 2 ^ 1024
   \<and> 1 / 10 ^ 100 \<le> (1 :: real) \<and> (1 :: real) \<le> 10 ^ 100
   \<and> 1 / 10 ^ 100 \<le> (2700 :: real) \<and> (2700 :: real) \<le> 10 ^ 100
   \<and> (\<exists>s15 s90. calculate_shockwave_radius 1 15 = PyFloat s15
            \<and> calculate_shockwave_radius 1 90 = PyFloat s90 \<and> s15 < s90)
   \<and> (\<exists>d15 d90. calculate_debris_field 1 15 = PyFloat d15
            \<and> calculate_debris_field 1 90 = PyFloat d90 \<and> d15 < d90)
   \<and> (\<exists>c15 c90. calculate_crater_diameter 1 1000 20 2600 2700 15 = Inr (PyFloat c15)
            \<and> calculate_crater_diameter 1 1000 20 2600 2700 90 = Inr (PyFloat c90)
            \<and> c15 < c90)"
proof -
  have h: "(0 :: real) < 1" "(1 :: real) < 2 ^ 1024" by simp_all
  have b: "1 / 10 ^ 100 \<le> (1 :: real) \<and> (1 :: real) \<le> 10 ^ 100
     \<and> 1 / 10 ^ 100 \<le> (2700 :: real) \<and> (2700 :: real) \<le> 10 ^ 100"
    by simp
  show ?thesis
    using h b angle_sensitivity [OF h, of 2700 1000 20 2600] by blast
qed

text \<open>
  Claim C5 as stated fails on a target density that is not above zero, one of the other
  inputs that the claim leaves free: at the energy 1 megaton the crater diameter is
  computed at neither angle, the division raises \<^verbatim>\<open>ZeroDivisionError\<close> at the target
  density 0, and the power is a complex number at the target density \<open>-2700\<close>.
\<close>

theorem crater_without_positive_target_density:
  "calculate_crater_diameter 1 1000 20 2600 0 15 = Inl ZeroDivisionError
   \<and> calculate_crater_diameter 1 1000 20 2600 0 90 = Inl ZeroDivisionError
   \<and> calculate_crater_diameter 1 1000 20 2600 (- 2700) 15 = Inr PyComplex
   \<and> calculate_crater_diameter 1 1000 20 2600 (- 2700) 90 = Inr PyComplex"
proof -
  have "crater_base 1 (- 2700) 15 < 0"
    using sin_radians_15_range(1) by (simp add: crater_base_def)
  moreover have "crater_base 1 (- 2700) 90 < 0"
    by (simp add: crater_base_def sin_radians_90)
  ultimately show ?thesis
    by (simp add: crater_diameter_eq)
qed

text \<open>
  For an energy and a target density between 1e-100 and 1e100, the three functions stay
  inside the range of the doubles at both angles, between 1e-300 and 1e300: the
  crater's product, quotient, power and result, and the results of the shockwave and
  the debris field. Beyond the range the real numbers of this theory and the doubles of
  the code part: a double product that overflows is infinite at 15 and at 90 degrees
  alike.
\<close>

lemma scaling_laws_in_double_range:
  assumes "1 / 10 ^ 100 \<le> E" "E \<le> 10 ^ 100" "1 / 10 ^ 100 \<le> \<rho>t" "\<rho>t \<le> 10 ^ 100"
  shows "1 / 10 ^ 300 \<le> crater_base E \<rho>t 15 \<and> crater_base E \<rho>t 15 \<le> 10 ^ 300"
    "1 / 10 ^ 300 \<le> crater_base E \<rho>t 90 \<and> crater_base E \<rho>t 90 \<le> 10 ^ 300"
    "1 / 10 ^ 300 \<le> crater_float E \<rho>t 15 \<and> crater_float E \<rho>t 15 \<le> 10 ^ 300"
    "1 / 10 ^ 300 \<le> crater_float E \<rho>t 90 \<and> crater_float E \<rho>t 90 \<le> 10 ^ 300"
    "1 / 10 ^ 300 \<le> shockwave_float E 15 \<and> shockwave_float E 15 \<le> 10 ^ 300"
    "1 / 10 ^ 300 \<le> shockwave_float E 90 \<and> shockwave_float E 90 \<le> 10 ^ 300"
    "1 / 10 ^ 300 \<le> debris_float E 15 \<and> debris_float E 15 \<le> 10 ^ 300"
    "1 / 10 ^ 300 \<le> debris_float E 90 \<and> debris_float E 90 \<le> 10 ^ 300"
proof -
  have k: "(1 :: real) \<le> 15" "(15 :: real) \<le> 100" "(1 :: real) \<le> 50" "(50 :: real) \<le> 100"
    "(0 :: real) \<le> 33 / 100" "(33 / 100 :: real) \<le> 1" "(0 :: real) \<le> 3 / 10"
    "(3 / 10 :: real) \<le> 1"
    by simp_all
  note c15 = crater_chain_range[OF ten_powers(1) assms angle_factor_range(1,2),
      unfolded ten_powers(2)]
  note c90 = crater_chain_range[OF ten_powers(1) assms angle_factor_range(3,4),
      unfolded ten_powers(2)]
  note s15 = power_chain_range(3)[OF ten_powers(1) assms(1,2) angle_factor_range(1,2)
      k(1,2) k(5,6), unfolded ten_powers(2)]
  note s90 = power_chain_range(3)[OF ten_powers(1) assms(1,2) angle_factor_range(3,4)
      k(1,2) k(5,6), unfolded ten_powers(2)]
  note d15 = power_chain_range(3)[OF ten_powers(1) assms(1,2) angle_factor_range(1,2)
      k(3,4) k(7,8), unfolded ten_powers(2)]
  note d90 = power_chain_range(3)[OF ten_powers(1) assms(1,2) angle_factor_range(3,4)
      k(3,4) k(7,8), unfolded ten_powers(2)]
  show "1 / 10 ^ 300 \<le> crater_base E \<rho>t 15 \<and> crater_base E \<rho>t 15 \<le> 10 ^ 300"
    unfolding crater_base_def by (rule c15(3))
  show "1 / 10 ^ 300 \<le> crater_base E \<rho>t 90 \<and> crater_base E \<rho>t 90 \<le> 10 ^ 300"
    unfolding crater_base_def by (rule c90(3))
  show "1 / 10 ^ 300 \<le> crater_float E \<rho>t 15 \<and> crater_float E \<rho>t 15 \<le> 10 ^ 300"
    unfolding crater_float_def crater_base_def by (rule c15(4))
  show "1 / 10 ^ 300 \<le> crater_float E \<rho>t 90 \<and> crater_float E \<rho>t 90 \<le> 10 ^ 300"
    unfolding crater_float_def crater_base_def by (rule c90(4))
  show "1 / 10 ^ 300 \<le> shockwave_float E 15 \<and> shockwave_float E 15 \<le> 10 ^ 300"
    unfolding shockwave_float_def by (rule s15)
  show "1 / 10 ^ 300 \<le> shockwave_float E 90 \<and> shockwave_float E 90 \<le> 10 ^ 300"
    unfolding shockwave_float_def by (rule s90)
  show "1 / 10 ^ 300 \<le> debris_float E 15 \<and> debris_float E 15 \<le> 10 ^ 300"
    unfolding debris_float_def by (rule d15)
  show "1 / 10 ^ 300 \<le> debris_float E 90 \<and> debris_float E 90 \<le> 10 ^ 300"
    unfolding debris_float_def by (rule d90)
qed

subsection \<open>The engine object\<close>

lemma impact_scenario_fst_state:
  "fst (calculate_impact_scenario s1 a p) = fst (calculate_impact_scenario s2 a p)"
  by (simp add: impact_scenario_eq split: sum.splits)

lemma impact_scenario_raises:
  assumes "fst (calculate_impact_scenario s a p) = Inl e"
  shows "snd (calculate_impact_scenario s a p) = s"
  using assms by (simp add: impact_scenario_eq split: sum.splits)

lemma impact_scenario_returns:
  assumes "fst (calculate_impact_scenario s a p) = Inr r"
  shows "\<exists>v. calculate_impact_velocity a p = Inr v
           \<and> snd (calculate_impact_scenario s a p) =
               s\<lparr>calculation_metadata :=
                  [(''asteroid_source'', MStr ''nasa_neo''),
                   (''calculation_method'', MStr ''enhanced_physics''),
                   (''impact_velocity_used'', MNum v),
                   (''asteroid_mass_kg'', MNum (calculate_asteroid_mass a)),
                   (''kinetic_energy_mt'', MNum (energy_megatons_of a v)),
                   (''nasa_asteroid_id'', MStr (nasa_id a))]\<rparr>"
  using assms by (simp add: impact_scenario_eq split: sum.splits)

lemma impact_scenario_metadata_fields:
  assumes "fst (calculate_impact_scenario s a p) = Inr r"
  shows "asteroid_source r = ''nasa_neo''" "calculation_method r = ''enhanced_physics''"
    "confidence_level r = 85 / 100"
  using assms by (auto simp add: impact_scenario_eq split: sum.splits)







text \<open>
  Claim C9, as amended. A call does not read the engine's state: its outcome is the same
  from every state. A call that returns a result overwrites the engine's one field,
  \<^verbatim>\<open>calculation_metadata\<close>, with six entries that the asteroid and the parameters
  determine (the two tags, the velocity used, the mass, the energy, the asteroid's
  id); a call that raises leaves the engine as it was.
\<close>

theorem engine_state_effect:
  "fst (calculate_impact_scenario s a p) = fst (calculate_impact_scenario s' a p)
   \<and> (\<forall>e. fst (calculate_impact_scenario s a p) = Inl e \<longrightarrow>
          snd (calculate_impact_scenario s a p) = s)
   \<and> (\<forall>r. fst (calculate_impact_scenario s a p) = Inr r \<longrightarrow>
          (\<exists>v. calculate_impact_velocity a p = Inr v
             \<and> snd (calculate_impact_scenario s a p) =
                 s\<lparr>calculation_metadata :=
                    [(''asteroid_source'', MStr ''nasa_neo''),
                     (''calculation_method'', MStr ''enhanced_physics''),
                     (''impact_velocity_used'', MNum v),
                     (''asteroid_mass_kg'', MNum (calculate_asteroid_mass a)),
                     (''kinetic_energy_mt'', MNum (energy_megatons_of a v)),
                     (''nasa_asteroid_id'', MStr (nasa_id a))]\<rparr>))"
  using impact_scenario_fst_state[of s a p s'] impact_scenario_raises[of s a p]
    impact_scenario_returns[of s a p]
  by blast

text \<open>
  The theorem at the scenario, from the engine as constructed, where the call returns a
  result, and at an asteroid of a class outside the density table, where it raises.
\<close>

theorem engine_state_effect_witness:
  "\<not> isl (fst (calculate_impact_scenario init_engine scenario_asteroid scenario_parameters))
   \<and> snd (calculate_impact_scenario init_engine scenario_asteroid scenario_parameters) =
       init_engine\<lparr>calculation_metadata :=
          [(''asteroid_source'', MStr ''nasa_neo''),
           (''calculation_method'', MStr ''enhanced_physics''),
           (''impact_velocity_used'', MNum 20),
           (''asteroid_mass_kg'', MNum (calculate_asteroid_mass scenario_asteroid)),
           (''kinetic_energy_mt'', MNum (energy_megatons_of scenario_asteroid 20)),
           (''nasa_asteroid_id'', MStr (nasa_id scenario_asteroid))]\<rparr>
   \<and> fst (calculate_impact_scenario init_engine
            (scenario_asteroid\<lparr>composition_type := ''carbonaceous''\<rparr>) scenario_parameters)
       = Inl KeyError
   \<and> snd (calculate_impact_scenario init_engine
            (scenario_asteroid\<lparr>composition_type := ''carbonaceous''\<rparr>) scenario_parameters)
       = init_engine"
proof -
  let ?run = "calculate_impact_scenario init_engine scenario_asteroid scenario_parameters"
  let ?b = "scenario_asteroid\<lparr>composition_type := ''carbonaceous''\<rparr>"
  obtain r where r: "fst ?run = Inr r"
    using scenario_run_fst by (simp add: scenario_run_def)
  then obtain v where v: "calculate_impact_velocity scenario_asteroid scenario_parameters = Inr v"
    "snd ?run =
       init_engine\<lparr>calculation_metadata :=
          [(''asteroid_source'', MStr ''nasa_neo''),
           (''calculation_method'', MStr ''enhanced_physics''),
           (''impact_velocity_used'', MNum v),
           (''asteroid_mass_kg'', MNum (calculate_asteroid_mass scenario_asteroid)),
           (''kinetic_energy_mt'', MNum (energy_megatons_of scenario_asteroid v)),
           (''nasa_asteroid_id'', MStr (nasa_id scenario_asteroid))]\<rparr>"
    using engine_state_effect [of init_engine scenario_asteroid scenario_parameters init_engine]
    by blast
  from v(1) have "v = 20" by (simp add: scenario_velocity)
  moreover have e: "fst (calculate_impact_scenario init_engine ?b scenario_parameters) = Inl KeyError"
    by (simp add: unrecognized_composition_raises)
  moreover have "snd (calculate_impact_scenario init_engine ?b scenario_parameters) = init_engine"
    using engine_state_effect [of init_engine ?b scenario_parameters init_engine] e by blast
  ultimately show ?thesis using r v(2) by simp
qed

text \<open>
  Claim C9 as stated fails on the scenario: the call changes the engine object, whose
  \<^verbatim>\<open>calculation_metadata\<close> is the empty dictionary before and has entries after.
\<close>

theorem engine_state_changes:
  "snd (calculate_impact_scenario init_engine scenario_asteroid scenario_parameters)
     \<noteq> init_engine
   \<and> calculation_metadata init_engine = []
   \<and> calculation_metadata
        (snd (calculate_impact_scenario init_engine scenario_asteroid scenario_parameters))
       \<noteq> []"
  using scenario_run_snd by (auto simp add: scenario_run_def init_engine_def)

text \<open>
  Claim C10. Every result that \<^verbatim>\<open>calculate_impact_scenario\<close> returns carries the
  constants \<^verbatim>\<open>asteroid_source = "nasa_neo"\<close>,
  \<^verbatim>\<open>calculation_method = "enhanced_physics"\<close> and \<^verbatim>\<open>confidence_level = 0.85\<close>, which is
  not the default 0.95 of the \<^verbatim>\<open>ImpactResults\<close> model, whatever the asteroid, the
  parameters and the state of the engine.
\<close>

theorem result_metadata:
  assumes "fst (calculate_impact_scenario s a p) = Inr r"
  shows "asteroid_source r = ''nasa_neo''
   \<and> calculation_method r = ''enhanced_physics''
   \<and> confidence_level r = 85 / 100
   \<and> confidence_level r \<noteq> default_confidence_level"
  using impact_scenario_metadata_fields[OF assms] by (simp add: default_confidence_level_def)

text \<open>The theorem at the scenario, where the call returns a result.\<close>

theorem result_metadata_witness:
  "\<not> isl (fst (calculate_impact_scenario init_engine scenario_asteroid scenario_parameters))
   \<and> asteroid_source
        (projr (fst (calculate_impact_scenario init_engine scenario_asteroid scenario_parameters)))
       = ''nasa_neo''
   \<and> calculation_method
        (projr (fst (calculate_impact_scenario init_engine scenario_asteroid scenario_parameters)))
       = ''enhanced_physics''
   \<and> confidence_level
        (projr (fst (calculate_impact_scenario init_engine scenario_asteroid scenario_parameters)))
       = 85 / 100"
proof -
  let ?run = "calculate_impact_scenario init_engine scenario_asteroid scenario_parameters"
  obtain r where r: "fst ?run = Inr r"
    using scenario_run_fst by (simp add: scenario_run_def)
  show ?thesis
    using r result_metadata [OF r] by simp
qed

subsection \<open>Progress scores\<close>


















end
